theory Spec2Isabelle
  imports Main
begin

section \<open>Values, platform operations and the upstream\<close>

text \<open>
  The server is a Node/Express program. Its handlers read route parameters (strings),
  consult a process-wide cache, call an upstream provider through \<^verbatim>\<open>axios.get\<close> and
  answer with \<^verbatim>\<open>res.status(..).json(..)\<close>. The embedding makes each of these explicit:
  a handler is a function of the platform operations, the configuration, the upstream,
  the clock and the cache, and returns its response, the cache it leaves behind and the
  list of upstream URLs it requested. One invocation is taken at one clock value, and
  invocations are sequential.

  JavaScript values are the JSON values a provider can send, together with
  \<^verbatim>\<open>undefined\<close> (the value of a missing property and of a cache miss) and the built-in
  functions that a value inherits from its prototype (\<^verbatim>\<open>toString\<close>, \<^verbatim>\<open>constructor\<close>, ...),
  which a handler can come to hold by reading a property whose name the caller chose. An
  object is the list of its own bindings, in order and without duplicate keys. Numbers
  are IEEE doubles in the program; the embedding keeps the number type as a parameter
  \<open>'n\<close> and takes the numeric built-ins the handlers call as fields of a record, so no
  theorem depends on how floating point rounds. Strings are ASCII character lists.
\<close>

datatype 'n jsval =
    JUndefined
  | JNull
  | JBool bool
  | JNum 'n
  | JStr string
  | JArr "'n jsval list"
  | JObj "(string \<times> 'n jsval) list"
  | JFunction string

datatype exn = TypeError

text \<open>
  The built-ins of the platform that the handlers use:
  \<^item> \<^verbatim>\<open>parseFloat(s)\<close>;
  \<^item> the product \<^verbatim>\<open>x * v\<close> of a number and an arbitrary value: the language converts
    the right operand to a number, which throws a TypeError when the operand is an object
    that cannot be converted to a primitive (an object with an own \<^verbatim>\<open>toString\<close> binding
    that is not callable, for one);
  \<^item> \<^verbatim>\<open>x.toFixed(2)\<close>;
  \<^item> the truth value of a number (false for zero and NaN);
  \<^item> \<^verbatim>\<open>new Date().toISOString()\<close> at a clock value;
  \<^item> \<open>inherited v k\<close>, the value of \<^verbatim>\<open>v[k]\<close> when \<open>k\<close> is not an own binding of an
    object \<open>v\<close>: a property inherited along the prototype chain, an index or the length
    of an array or a string, or \<^verbatim>\<open>undefined\<close> when there is none. Which names are
    inherited depends on the version of the platform.
\<close>

record 'n platform =
  parseFloat :: "string \<Rightarrow> 'n"
  times :: "'n \<Rightarrow> 'n jsval \<Rightarrow> exn + 'n"
  toFixed2 :: "'n \<Rightarrow> string"
  num_truthy :: "'n \<Rightarrow> bool"
  toISOString :: "nat \<Rightarrow> string"
  inherited :: "'n jsval \<Rightarrow> string \<Rightarrow> 'n jsval"

text \<open>The truth value of a value in a condition (\<^verbatim>\<open>if (v)\<close>, \<^verbatim>\<open>a || b\<close>, \<^verbatim>\<open>a && b\<close>).\<close>

fun truthy :: "'n platform \<Rightarrow> 'n jsval \<Rightarrow> bool" where
  "truthy P JUndefined = False"
| "truthy P JNull = False"
| "truthy P (JBool b) = b"
| "truthy P (JNum n) = num_truthy P n"
| "truthy P (JStr s) = (s \<noteq> [])"
| "truthy P (JArr xs) = True"
| "truthy P (JObj kvs) = True"
| "truthy P (JFunction f) = True"

text \<open>
  Property access \<^verbatim>\<open>v['k']\<close> and \<^verbatim>\<open>v.k\<close> with a key that is written out in the source
  (\<^verbatim>\<open>Global Quote\<close>, \<^verbatim>\<open>05. price\<close>, \<^verbatim>\<open>data\<close>, \<^verbatim>\<open>rates\<close>, \<^verbatim>\<open>conversion_rate\<close>, ...). Reading
  a property of \<^verbatim>\<open>undefined\<close> or \<^verbatim>\<open>null\<close> throws a TypeError; an object yields the value
  bound to the key or \<^verbatim>\<open>undefined\<close>; every other value yields \<^verbatim>\<open>undefined\<close>, since none of
  these keys is an index, \<^verbatim>\<open>length\<close>, or a name that a prototype of the platform defines.
\<close>

fun get_prop :: "'n jsval \<Rightarrow> string \<Rightarrow> exn + 'n jsval" where
  "get_prop JUndefined k = Inl TypeError"
| "get_prop JNull k = Inl TypeError"
| "get_prop (JObj kvs) k = Inr (case map_of kvs k of None \<Rightarrow> JUndefined | Some v \<Rightarrow> v)"
| "get_prop v k = Inr JUndefined"

text \<open>
  Property access \<^verbatim>\<open>v[k]\<close> with a key computed at run time (the conversion route reads
  \<^verbatim>\<open>rates[to]\<close> with the caller's \<^verbatim>\<open>to\<close>): an own binding of an object wins; otherwise
  the value is what \<open>v\<close> inherits under that name, so \<^verbatim>\<open>rates['toString']\<close> is a function.
\<close>

fun computed_prop :: "'n platform \<Rightarrow> 'n jsval \<Rightarrow> string \<Rightarrow> exn + 'n jsval" where
  "computed_prop P JUndefined k = Inl TypeError"
| "computed_prop P JNull k = Inl TypeError"
| "computed_prop P (JObj kvs) k =
     Inr (case map_of kvs k of None \<Rightarrow> inherited P (JObj kvs) k | Some v \<Rightarrow> v)"
| "computed_prop P v k = Inr (inherited P v k)"

text \<open>\<^verbatim>\<open>v[k]\<close> where \<open>v\<close> has already been tested to be truthy, so the access cannot throw.\<close>

definition prop_of :: "'n jsval \<Rightarrow> string \<Rightarrow> 'n jsval" where
  "prop_of v k = (case get_prop v k of Inl e \<Rightarrow> JUndefined | Inr x \<Rightarrow> x)"

text \<open>
  \<^verbatim>\<open>Object.keys(v).length\<close> for a truthy \<open>v\<close>: the number of own enumerable keys (the
  bindings of an object, the indices of an array or string, none for a number, a
  boolean or a built-in function).
\<close>

fun keys_length :: "'n jsval \<Rightarrow> nat" where
  "keys_length (JObj kvs) = length kvs"
| "keys_length (JArr xs) = length xs"
| "keys_length (JStr s) = length s"
| "keys_length v = 0"

text \<open>
  \<^verbatim>\<open>v.slice(0, 10)\<close> for a truthy \<open>v\<close>: arrays and strings have the method; on any other
  truthy value the call throws a TypeError (\<^verbatim>\<open>slice\<close> is not a function).
\<close>

fun slice_0_10 :: "'n jsval \<Rightarrow> exn + 'n jsval" where
  "slice_0_10 (JArr xs) = Inr (JArr (take 10 xs))"
| "slice_0_10 (JStr s) = Inr (JStr (take 10 s))"
| "slice_0_10 v = Inl TypeError"

text \<open>\<^verbatim>\<open>s.toUpperCase()\<close> on ASCII strings.\<close>

definition toUpperCase_char :: "char \<Rightarrow> char" where
  "toUpperCase_char c =
     (let n = (of_char c :: nat) in if 97 \<le> n \<and> n \<le> 122 then char_of (n - 32) else c)"

definition toUpperCase :: "string \<Rightarrow> string" where
  "toUpperCase s = map toUpperCase_char s"

text \<open>
  \<^verbatim>\<open>axios.get(url, { timeout: 10000 })\<close> either resolves with a response whose
  \<^verbatim>\<open>data\<close> is the payload, or rejects (transport error, timeout, non-success status)
  with an error. Of the error, \<^verbatim>\<open>makeAPIRequest\<close> reads \<^verbatim>\<open>error.response?.status\<close>,
  \<^verbatim>\<open>error.response?.data?.message\<close> and \<^verbatim>\<open>error.message\<close>.
\<close>

record 'n axios_error =
  response_status :: "nat option"
  response_data_message :: "'n jsval"
  message :: string

datatype 'n axios_result = Resolved "'n jsval" | Rejected "'n axios_error"

type_synonym 'n upstream = "string \<Rightarrow> 'n axios_result"

section \<open>Cache Store\<close>

text \<open>
  Modelled from the spec: the Cache Store is the \<^verbatim>\<open>node-cache\<close> package, which is not
  part of the sources; the server creates it with \<^verbatim>\<open>stdTTL: 300\<close> and calls its
  \<^verbatim>\<open>get\<close> and \<^verbatim>\<open>set\<close>. An entry holds the value, the time it was stored and its
  time to live, and is servable iff \<open>now < storedAt + ttl\<close>; \<open>get\<close> of an absent or
  expired key is \<^verbatim>\<open>undefined\<close>; \<open>set\<close> overwrites and restarts the expiry clock.
\<close>

record 'n cache_entry =
  entry_value :: "'n jsval"
  storedAt :: nat
  ttl :: nat

type_synonym 'n cache = "string \<rightharpoonup> 'n cache_entry"

definition stdTTL :: nat where
  "stdTTL = 300"

definition cache_get :: "nat \<Rightarrow> 'n cache \<Rightarrow> string \<Rightarrow> 'n jsval" where
  "cache_get now c k =
     (case c k of
        None \<Rightarrow> JUndefined
      | Some e \<Rightarrow> if now < storedAt e + ttl e then entry_value e else JUndefined)"

definition cache_set :: "nat \<Rightarrow> 'n cache \<Rightarrow> string \<Rightarrow> 'n jsval \<Rightarrow> 'n cache" where
  "cache_set now c k v = c(k \<mapsto> \<lparr>entry_value = v, storedAt = now, ttl = stdTTL\<rparr>)"

section \<open>The request helper\<close>

text \<open>
  The object \<^verbatim>\<open>makeAPIRequest\<close> returns: \<^verbatim>\<open>{ success: true, data, cached }\<close> or
  \<^verbatim>\<open>{ success: false, error, status }\<close>.
\<close>

datatype 'n api_result =
    ApiSuccess "'n jsval" bool
  | ApiFailure "'n jsval" nat

text \<open>\<^verbatim>\<open>error.response?.data?.message || error.message || 'API request failed'\<close>\<close>

definition error_text :: "'n platform \<Rightarrow> 'n axios_error \<Rightarrow> 'n jsval" where
  "error_text P e =
     (if truthy P (response_data_message e) then response_data_message e
      else if message e \<noteq> [] then JStr (message e)
      else JStr ''API request failed'')"

text \<open>\<^verbatim>\<open>s || 500\<close> for a status number.\<close>

definition or_500 :: "nat \<Rightarrow> nat" where
  "or_500 s = (if s = 0 then 500 else s)"

definition error_status :: "'n axios_error \<Rightarrow> nat" where
  "error_status e = (case response_status e of None \<Rightarrow> 500 | Some s \<Rightarrow> or_500 s)"

text \<open>
  \<^verbatim>\<open>makeAPIRequest(url, cacheKey)\<close>: serve a truthy cached value; otherwise request the
  URL, store the payload of a resolved request under the key, and turn a rejected
  request into a failure object. The third component lists the URLs requested.
\<close>

definition makeAPIRequest ::
  "'n platform \<Rightarrow> 'n upstream \<Rightarrow> nat \<Rightarrow> 'n cache \<Rightarrow> string \<Rightarrow> string
     \<Rightarrow> 'n api_result \<times> 'n cache \<times> string list" where
  "makeAPIRequest P up now c url cacheKey =
     (let cachedData = cache_get now c cacheKey in
      if truthy P cachedData then (ApiSuccess cachedData True, c, [])
      else (case up url of
              Resolved d \<Rightarrow> (ApiSuccess d False, cache_set now c cacheKey d, [url])
            | Rejected e \<Rightarrow> (ApiFailure (error_text P e) (error_status e), c, [url])))"

section \<open>Configuration and responses\<close>

text \<open>
  The two credentials, as the server resolves them once at start-up:
  \<^verbatim>\<open>process.env.ALPHA_VANTAGE_API_KEY || 'demo'\<close> and
  \<^verbatim>\<open>process.env.EXCHANGE_API_KEY || ''\<close>. The paid exchange-rate provider is used iff
  \<^verbatim>\<open>EXCHANGE_API_KEY\<close> is a non-empty string.
\<close>

record config =
  ALPHA_VANTAGE_API_KEY :: string
  EXCHANGE_API_KEY :: string

text \<open>What a handler sends: \<^verbatim>\<open>res.status(s).json(b)\<close>; \<^verbatim>\<open>res.json(b)\<close> sends status 200.\<close>

record 'n response =
  status_code :: nat
  body :: "'n jsval"

type_synonym 'n outcome = "'n response \<times> 'n cache \<times> string list"

definition success_body :: "'n platform \<Rightarrow> nat \<Rightarrow> 'n jsval \<Rightarrow> bool \<Rightarrow> 'n jsval" where
  "success_body P now d cached =
     JObj [(''success'', JBool True), (''data'', d), (''cached'', JBool cached),
           (''timestamp'', JStr (toISOString P now))]"

definition internal_error :: "string \<Rightarrow> 'n response" where
  "internal_error msg =
     \<lparr>status_code = 500,
      body = JObj [(''success'', JBool False), (''error'', JStr ''Internal server error''),
                   (''message'', JStr msg)]\<rparr>"

text \<open>The \<^verbatim>\<open>try { .. } catch (error) { res.status(500).json(..) }\<close> of a handler.\<close>

definition try_catch :: "exn + 'n response \<Rightarrow> string \<Rightarrow> 'n response" where
  "try_catch r msg = (case r of Inl e \<Rightarrow> internal_error msg | Inr x \<Rightarrow> x)"

definition bind_exn :: "exn + 'a \<Rightarrow> ('a \<Rightarrow> exn + 'b) \<Rightarrow> exn + 'b" where
  "bind_exn m f = (case m of Inl e \<Rightarrow> Inl e | Inr x \<Rightarrow> f x)"

definition quoted :: "string \<Rightarrow> string" where
  "quoted s = [CHR 0x27] @ s @ [CHR 0x27]"

section \<open>Exchange-rate table: GET /api/exchange-rates/:base?\<close>

definition exchange_key :: "string option \<Rightarrow> string" where
  "exchange_key base =
     ''exchange_'' @ (case base of None \<Rightarrow> ''USD'' | Some b \<Rightarrow> if b = [] then ''USD'' else b)"

definition exchange_url :: "config \<Rightarrow> string option \<Rightarrow> string" where
  "exchange_url cfg base =
     (let baseCurrency = (case base of None \<Rightarrow> ''USD'' | Some b \<Rightarrow> if b = [] then ''USD'' else b) in
      if EXCHANGE_API_KEY cfg \<noteq> []
      then ''https://v6.exchangerate-api.com/v6/'' @ EXCHANGE_API_KEY cfg @ ''/latest/'' @ baseCurrency
      else ''https://api.exchangerate-api.com/v4/latest/'' @ baseCurrency)"

text \<open>Nothing between \<^verbatim>\<open>try\<close> and \<^verbatim>\<open>catch\<close> of this handler can throw.\<close>

definition exchange_respond :: "'n platform \<Rightarrow> nat \<Rightarrow> 'n api_result \<Rightarrow> 'n response" where
  "exchange_respond P now result =
     (case result of
        ApiSuccess d cached \<Rightarrow> \<lparr>status_code = 200, body = success_body P now d cached\<rparr>
      | ApiFailure err st \<Rightarrow>
          \<lparr>status_code = or_500 st,
           body = JObj [(''success'', JBool False), (''error'', err),
                        (''fallback'', JStr ''Exchange rate data temporarily unavailable'')]\<rparr>)"

definition exchange_rates ::
  "'n platform \<Rightarrow> config \<Rightarrow> 'n upstream \<Rightarrow> nat \<Rightarrow> 'n cache \<Rightarrow> string option \<Rightarrow> 'n outcome" where
  "exchange_rates P cfg up now c base =
     (case makeAPIRequest P up now c (exchange_url cfg base) (exchange_key base) of
        (result, c', calls) \<Rightarrow> (exchange_respond P now result, c', calls))"

section \<open>Stock quote: GET /api/stock/:symbol\<close>

definition stock_key :: "string \<Rightarrow> string" where
  "stock_key symbol_param = ''stock_'' @ toUpperCase symbol_param"

definition stock_url :: "config \<Rightarrow> string \<Rightarrow> string" where
  "stock_url cfg symbol_param =
     ''https://www.alphavantage.co/query?function=GLOBAL_QUOTE&symbol='' @ toUpperCase symbol_param
       @ ''&apikey='' @ ALPHA_VANTAGE_API_KEY cfg"

definition stock_data :: "'n jsval \<Rightarrow> 'n jsval" where
  "stock_data quote =
     JObj [(''symbol'', prop_of quote ''01. symbol''),
           (''price'', prop_of quote ''05. price''),
           (''change'', prop_of quote ''09. change''),
           (''changePercent'', prop_of quote ''10. change percent''),
           (''volume'', prop_of quote ''06. volume''),
           (''lastUpdate'', prop_of quote ''07. latest trading day'')]"

definition stock_respond ::
  "'n platform \<Rightarrow> nat \<Rightarrow> string \<Rightarrow> 'n api_result \<Rightarrow> exn + 'n response" where
  "stock_respond P now symbol result =
     (case result of
        ApiSuccess d cached \<Rightarrow>
          bind_exn (get_prop d ''Global Quote'') (\<lambda>quote.
            if truthy P quote \<and> 0 < keys_length quote
            then Inr \<lparr>status_code = 200, body = success_body P now (stock_data quote) cached\<rparr>
            else Inr \<lparr>status_code = 404,
                      body = JObj [(''success'', JBool False),
                                   (''error'', JStr (''Stock symbol '' @ quoted symbol
                                                      @ '' not found or invalid''))]\<rparr>)
      | ApiFailure err st \<Rightarrow>
          Inr \<lparr>status_code = or_500 st,
               body = JObj [(''success'', JBool False), (''error'', err)]\<rparr>)"

definition stock ::
  "'n platform \<Rightarrow> config \<Rightarrow> 'n upstream \<Rightarrow> nat \<Rightarrow> 'n cache \<Rightarrow> string \<Rightarrow> 'n outcome" where
  "stock P cfg up now c symbol_param =
     (case makeAPIRequest P up now c (stock_url cfg symbol_param) (stock_key symbol_param) of
        (result, c', calls) \<Rightarrow>
          (try_catch (stock_respond P now (toUpperCase symbol_param) result)
             (''Unable to fetch stock data for '' @ toUpperCase symbol_param),
           c', calls))"

section \<open>Crypto snapshot: GET /api/crypto/:ids?\<close>

definition crypto_ids :: "string option \<Rightarrow> string" where
  "crypto_ids ids =
     (case ids of
        None \<Rightarrow> ''bitcoin,ethereum,cardano,polkadot,chainlink''
      | Some s \<Rightarrow> if s = [] then ''bitcoin,ethereum,cardano,polkadot,chainlink'' else s)"

definition crypto_key :: "string option \<Rightarrow> string" where
  "crypto_key ids = ''crypto_'' @ crypto_ids ids"

definition crypto_url :: "string option \<Rightarrow> string" where
  "crypto_url ids =
     ''https://api.coingecko.com/api/v3/simple/price?ids='' @ crypto_ids ids
       @ ''&vs_currencies=usd&include_24hr_change=true&include_market_cap=true''"

definition crypto_respond :: "'n platform \<Rightarrow> nat \<Rightarrow> 'n api_result \<Rightarrow> 'n response" where
  "crypto_respond P now result =
     (case result of
        ApiSuccess d cached \<Rightarrow> \<lparr>status_code = 200, body = success_body P now d cached\<rparr>
      | ApiFailure err st \<Rightarrow>
          \<lparr>status_code = or_500 st,
           body = JObj [(''success'', JBool False), (''error'', err)]\<rparr>)"

definition crypto ::
  "'n platform \<Rightarrow> config \<Rightarrow> 'n upstream \<Rightarrow> nat \<Rightarrow> 'n cache \<Rightarrow> string option \<Rightarrow> 'n outcome" where
  "crypto P cfg up now c ids =
     (case makeAPIRequest P up now c (crypto_url ids) (crypto_key ids) of
        (result, c', calls) \<Rightarrow> (crypto_respond P now result, c', calls))"

section \<open>Economic indicator: GET /api/economic/:indicator\<close>

definition economic_key :: "string \<Rightarrow> string" where
  "economic_key indicator_param = ''economic_'' @ toUpperCase indicator_param"

text \<open>
  \<^verbatim>\<open>indicatorMap[indicator] || indicator\<close> for the upper-cased indicator. No name
  inherited from the prototype of the map is upper case, so the four bindings are the
  only ones the lookup finds.
\<close>

definition indicatorMap :: "(string \<times> string) list" where
  "indicatorMap =
     [(''GDP'', ''REAL_GDP''), (''INFLATION'', ''INFLATION''),
      (''UNEMPLOYMENT'', ''UNEMPLOYMENT''), (''INTEREST_RATE'', ''FEDERAL_FUNDS_RATE'')]"

definition functionName :: "string \<Rightarrow> string" where
  "functionName indicator =
     (case map_of indicatorMap indicator of
        None \<Rightarrow> indicator
      | Some f \<Rightarrow> if f = [] then indicator else f)"

definition economic_url :: "config \<Rightarrow> string \<Rightarrow> string" where
  "economic_url cfg indicator_param =
     ''https://www.alphavantage.co/query?function='' @ functionName (toUpperCase indicator_param)
       @ ''&apikey='' @ ALPHA_VANTAGE_API_KEY cfg"

definition economic_not_found :: "string \<Rightarrow> 'n response" where
  "economic_not_found indicator =
     \<lparr>status_code = 404,
      body = JObj [(''success'', JBool False),
                   (''error'', JStr (''Economic indicator '' @ quoted indicator
                                      @ '' not found or unavailable''))]\<rparr>"

definition economic_respond ::
  "'n platform \<Rightarrow> nat \<Rightarrow> string \<Rightarrow> 'n api_result \<Rightarrow> exn + 'n response" where
  "economic_respond P now indicator result =
     (case result of
        ApiSuccess d cached \<Rightarrow>
          bind_exn (get_prop d ''data'') (\<lambda>series.
            if truthy P series
            then bind_exn (slice_0_10 series) (\<lambda>points.
                   Inr \<lparr>status_code = 200, body = success_body P now points cached\<rparr>)
            else Inr (economic_not_found indicator))
      | ApiFailure err st \<Rightarrow> Inr (economic_not_found indicator))"

definition economic ::
  "'n platform \<Rightarrow> config \<Rightarrow> 'n upstream \<Rightarrow> nat \<Rightarrow> 'n cache \<Rightarrow> string \<Rightarrow> 'n outcome" where
  "economic P cfg up now c indicator_param =
     (case makeAPIRequest P up now c (economic_url cfg indicator_param)
             (economic_key indicator_param) of
        (result, c', calls) \<Rightarrow>
          (try_catch (economic_respond P now (toUpperCase indicator_param) result)
             (''Unable to fetch economic data for '' @ toUpperCase indicator_param),
           c', calls))"

section \<open>Currency conversion: GET /api/convert/:from/:to/:amount\<close>

definition convert_key :: "string \<Rightarrow> string \<Rightarrow> string" where
  "convert_key from to = ''convert_'' @ from @ ''_'' @ to"

definition convert_url :: "config \<Rightarrow> string \<Rightarrow> string \<Rightarrow> string" where
  "convert_url cfg from to =
     (if EXCHANGE_API_KEY cfg \<noteq> []
      then ''https://v6.exchangerate-api.com/v6/'' @ EXCHANGE_API_KEY cfg @ ''/pair/'' @ from
             @ ''/'' @ to
      else ''https://api.exchangerate-api.com/v4/latest/'' @ from)"

text \<open>
  The rate read from the payload: \<^verbatim>\<open>result.data.conversion_rate\<close> with the paid
  provider, \<^verbatim>\<open>result.data.rates[to]\<close> with the free one, where \<^verbatim>\<open>to\<close> is the caller's
  text.
\<close>

definition conversionRate ::
  "'n platform \<Rightarrow> config \<Rightarrow> string \<Rightarrow> 'n jsval \<Rightarrow> exn + 'n jsval" where
  "conversionRate P cfg to d =
     (if EXCHANGE_API_KEY cfg \<noteq> [] then get_prop d ''conversion_rate''
      else bind_exn (get_prop d ''rates'') (\<lambda>rates. computed_prop P rates to))"

text \<open>
  The data of a conversion, for the rate and the product
  \<^verbatim>\<open>parseFloat(amount) * conversionRate\<close>:
  \<^verbatim>\<open>convertedAmount = product.toFixed(2)\<close> and \<^verbatim>\<open>result: parseFloat(convertedAmount)\<close>.
\<close>

definition convert_data ::
  "'n platform \<Rightarrow> string \<Rightarrow> string \<Rightarrow> string \<Rightarrow> 'n jsval \<Rightarrow> 'n \<Rightarrow> 'n jsval" where
  "convert_data P from to amount rate product =
     (let convertedAmount = toFixed2 P product in
      JObj [(''from'', JStr from), (''to'', JStr to),
            (''amount'', JNum (parseFloat P amount)),
            (''rate'', rate),
            (''result'', JNum (parseFloat P convertedAmount))])"

definition convert_respond ::
  "'n platform \<Rightarrow> config \<Rightarrow> nat \<Rightarrow> string \<Rightarrow> string \<Rightarrow> string \<Rightarrow> 'n api_result
     \<Rightarrow> exn + 'n response" where
  "convert_respond P cfg now from to amount result =
     (case result of
        ApiSuccess d cached \<Rightarrow>
          bind_exn (conversionRate P cfg to d) (\<lambda>rate.
            if truthy P rate
            then bind_exn (times P (parseFloat P amount) rate) (\<lambda>product.
                   Inr \<lparr>status_code = 200,
                        body = success_body P now (convert_data P from to amount rate product)
                                 cached\<rparr>)
            else Inr \<lparr>status_code = 404,
                      body = JObj [(''success'', JBool False),
                                   (''error'', JStr (''Conversion rate from '' @ from @ '' to ''
                                                      @ to @ '' not available''))]\<rparr>)
      | ApiFailure err st \<Rightarrow>
          Inr \<lparr>status_code = or_500 st,
               body = JObj [(''success'', JBool False), (''error'', err)]\<rparr>)"

definition convert ::
  "'n platform \<Rightarrow> config \<Rightarrow> 'n upstream \<Rightarrow> nat \<Rightarrow> 'n cache \<Rightarrow> string \<Rightarrow> string \<Rightarrow> string
     \<Rightarrow> 'n outcome" where
  "convert P cfg up now c from to amount =
     (case makeAPIRequest P up now c (convert_url cfg from to) (convert_key from to) of
        (result, c', calls) \<Rightarrow>
          (try_catch (convert_respond P cfg now from to amount result)
             (''Unable to convert '' @ from @ '' to '' @ to),
           c', calls))"

section \<open>The application: the five data routes\<close>

text \<open>
  The router of the application matches a request path against the five data routes
  and runs the matching handler. An optional route parameter (\<^verbatim>\<open>:base?\<close>, \<^verbatim>\<open>:ids?\<close>) may
  be absent.
\<close>

datatype request =
    ExchangeRates "string option"
  | Stock string
  | Crypto "string option"
  | Economic string
  | Convert string string string

fun app ::
  "'n platform \<Rightarrow> config \<Rightarrow> 'n upstream \<Rightarrow> nat \<Rightarrow> 'n cache \<Rightarrow> request \<Rightarrow> 'n outcome" where
  "app P cfg up now c (ExchangeRates base) = exchange_rates P cfg up now c base"
| "app P cfg up now c (Stock symbol_param) = stock P cfg up now c symbol_param"
| "app P cfg up now c (Crypto ids) = crypto P cfg up now c ids"
| "app P cfg up now c (Economic indicator_param) = economic P cfg up now c indicator_param"
| "app P cfg up now c (Convert from to amount) = convert P cfg up now c from to amount"

text \<open>The cache key and the upstream URL each route computes for its request.\<close>

fun request_key :: "request \<Rightarrow> string" where
  "request_key (ExchangeRates base) = exchange_key base"
| "request_key (Stock symbol_param) = stock_key symbol_param"
| "request_key (Crypto ids) = crypto_key ids"
| "request_key (Economic indicator_param) = economic_key indicator_param"
| "request_key (Convert from to amount) = convert_key from to"

fun request_url :: "config \<Rightarrow> request \<Rightarrow> string" where
  "request_url cfg (ExchangeRates base) = exchange_url cfg base"
| "request_url cfg (Stock symbol_param) = stock_url cfg symbol_param"
| "request_url cfg (Crypto ids) = crypto_url ids"
| "request_url cfg (Economic indicator_param) = economic_url cfg indicator_param"
| "request_url cfg (Convert from to amount) = convert_url cfg from to"

text \<open>What each route sends for a result of \<^verbatim>\<open>makeAPIRequest\<close>.\<close>

fun respond :: "'n platform \<Rightarrow> config \<Rightarrow> nat \<Rightarrow> request \<Rightarrow> 'n api_result \<Rightarrow> 'n response" where
  "respond P cfg now (ExchangeRates base) result = exchange_respond P now result"
| "respond P cfg now (Stock symbol_param) result =
     try_catch (stock_respond P now (toUpperCase symbol_param) result)
       (''Unable to fetch stock data for '' @ toUpperCase symbol_param)"
| "respond P cfg now (Crypto ids) result = crypto_respond P now result"
| "respond P cfg now (Economic indicator_param) result =
     try_catch (economic_respond P now (toUpperCase indicator_param) result)
       (''Unable to fetch economic data for '' @ toUpperCase indicator_param)"
| "respond P cfg now (Convert from to amount) result =
     try_catch (convert_respond P cfg now from to amount result)
       (''Unable to convert '' @ from @ '' to '' @ to)"

text \<open>The three components of an outcome.\<close>

definition sent :: "'n outcome \<Rightarrow> 'n response" where
  "sent out = fst out"

definition cache_after :: "'n outcome \<Rightarrow> 'n cache" where
  "cache_after out = fst (snd out)"

definition upstream_calls :: "'n outcome \<Rightarrow> string list" where
  "upstream_calls out = snd (snd out)"

text \<open>Fields of the envelope a response carries.\<close>

definition field :: "'n response \<Rightarrow> string \<Rightarrow> 'n jsval" where
  "field r k = prop_of (body r) k"

definition field_names :: "'n jsval \<Rightarrow> string list" where
  "field_names v = (case v of JObj kvs \<Rightarrow> map fst kvs | _ \<Rightarrow> [])"

definition is_number :: "'n jsval \<Rightarrow> bool" where
  "is_number v = (case v of JNum n \<Rightarrow> True | _ \<Rightarrow> False)"

text \<open>
  \<^verbatim>\<open>res.json(b)\<close> sends \<^verbatim>\<open>JSON.stringify(b)\<close>, which leaves out of an object every binding
  whose value is \<^verbatim>\<open>undefined\<close> or a function. The names the caller receives for an
  object are those of the remaining bindings. (The JSON text also writes the number NaN
  as \<^verbatim>\<open>null\<close>; beyond the names of bindings, the embedding speaks of the object passed to
  \<^verbatim>\<open>res.json\<close>, not of the text.)
\<close>

definition json_omits :: "'n jsval \<Rightarrow> bool" where
  "json_omits v = (case v of JUndefined \<Rightarrow> True | JFunction f \<Rightarrow> True | _ \<Rightarrow> False)"

definition received_names :: "'n jsval \<Rightarrow> string list" where
  "received_names v =
     (case v of JObj kvs \<Rightarrow> map fst (filter (\<lambda>kv. \<not> json_omits (snd kv)) kvs) | _ \<Rightarrow> [])"


definition error_envelope :: "'n platform \<Rightarrow> 'n response \<Rightarrow> bool" where
  "error_envelope P r =
     (field r ''success'' = JBool False \<and> truthy P (field r ''error'')
      \<and> field_names (body r) \<in> set [[''success'', ''error''],
                                      [''success'', ''error'', ''fallback''],
                                      [''success'', ''error'', ''message'']])"

text \<open>
  The payload a request is answered from: the cached value when it is servable and
  truthy, otherwise what the upstream resolves with.
\<close>

definition payload_served ::
  "'n platform \<Rightarrow> 'n upstream \<Rightarrow> nat \<Rightarrow> 'n cache \<Rightarrow> string \<Rightarrow> string \<Rightarrow> 'n jsval" where
  "payload_served P up now c url k =
     (if truthy P (cache_get now c k) then cache_get now c k
      else (case up url of Resolved d \<Rightarrow> d | Rejected e \<Rightarrow> JUndefined))"


text \<open>
  Two parameter strings that differ only in letter case: equal length, and at each
  position the same character or the two cases of one ASCII letter.
\<close>

definition is_lower :: "char \<Rightarrow> bool" where
  "is_lower ch = (97 \<le> (of_char ch :: nat) \<and> (of_char ch :: nat) \<le> 122)"

definition is_upper :: "char \<Rightarrow> bool" where
  "is_upper ch = (65 \<le> (of_char ch :: nat) \<and> (of_char ch :: nat) \<le> 90)"

definition same_letter :: "char \<Rightarrow> char \<Rightarrow> bool" where
  "same_letter a b =
     (a = b \<or> (is_lower a \<and> is_upper b \<and> (of_char a :: nat) = of_char b + 32)
            \<or> (is_upper a \<and> is_lower b \<and> (of_char b :: nat) = of_char a + 32))"

definition differ_in_case_only :: "string \<Rightarrow> string \<Rightarrow> bool" where
  "differ_in_case_only s t = list_all2 same_letter s t"

section \<open>A platform and a configuration for evaluating examples\<close>

text \<open>
  For concrete runs a number is a natural number or NaN (\<open>None\<close>). On these the built-ins
  act as the program's do on non-negative integral numerals: \<^verbatim>\<open>parseFloat\<close> reads the
  leading decimal digits and gives NaN when there is none; \<^verbatim>\<open>toFixed(2)\<close> prints the
  digits followed by \<^verbatim>\<open>.00\<close>, or \<^verbatim>\<open>NaN\<close>; zero and NaN are the falsy numbers. The product
  with a number is the product, with NaN as soon as one factor is NaN; with a built-in
  function or with an object that has no own \<^verbatim>\<open>toString\<close> it is NaN; with an object that
  has an own \<^verbatim>\<open>toString\<close> binding (not callable, coming from JSON) it throws. Products
  with other values are not used in the examples and are given as NaN. The inherited
  properties are those every object takes from \<^verbatim>\<open>Object.prototype\<close>: its functions, and
  \<^verbatim>\<open>__proto__\<close>, the prototype itself (an object without enumerable bindings); the index,
  length and method properties particular to arrays, strings, numbers and booleans are
  not used in the examples and are left out. The timestamp text is the digits of the
  clock value. The configurations are the one of a server started without credentials in
  its environment, and one with a credential for the paid exchange-rate provider.
\<close>

fun digits_value :: "nat \<Rightarrow> string \<Rightarrow> nat" where
  "digits_value acc [] = acc"
| "digits_value acc (ch # cs) =
     (let d = (of_char ch :: nat) in
      if 48 \<le> d \<and> d \<le> 57 then digits_value (10 * acc + (d - 48)) cs else acc)"

fun show_nat :: "nat \<Rightarrow> string" where
  "show_nat n =
     (if n < 10 then [char_of (48 + n)] else show_nat (n div 10) @ [char_of (48 + n mod 10)])"

definition leading_number :: "string \<Rightarrow> nat option" where
  "leading_number s =
     (case s of
        [] \<Rightarrow> None
      | ch # cs \<Rightarrow>
          if 48 \<le> (of_char ch :: nat) \<and> (of_char ch :: nat) \<le> 57
          then Some (digits_value 0 s) else None)"

definition product_of :: "nat option \<Rightarrow> nat option jsval \<Rightarrow> exn + nat option" where
  "product_of x v =
     (case v of
        JNum y \<Rightarrow> Inr (case x of None \<Rightarrow> None
                        | Some a \<Rightarrow> (case y of None \<Rightarrow> None | Some b \<Rightarrow> Some (a * b)))
      | JObj kvs \<Rightarrow> if map_of kvs ''toString'' = None then Inr None else Inl TypeError
      | _ \<Rightarrow> Inr None)"

definition object_prototype_functions :: "string list" where
  "object_prototype_functions =
     [''constructor'', ''toString'', ''toLocaleString'', ''valueOf'', ''hasOwnProperty'',
      ''isPrototypeOf'', ''propertyIsEnumerable'', ''__defineGetter__'', ''__defineSetter__'',
      ''__lookupGetter__'', ''__lookupSetter__'']"

definition object_inherited :: "nat option jsval \<Rightarrow> string \<Rightarrow> nat option jsval" where
  "object_inherited v k =
     (if k \<in> set object_prototype_functions then JFunction k
      else if k = ''__proto__'' then JObj []
      else JUndefined)"

definition integral_platform :: "nat option platform" where
  "integral_platform =
     \<lparr>parseFloat = leading_number,
      times = product_of,
      toFixed2 = (\<lambda>x. case x of None \<Rightarrow> ''NaN'' | Some n \<Rightarrow> show_nat n @ ''.00''),
      num_truthy = (\<lambda>x. case x of None \<Rightarrow> False | Some n \<Rightarrow> n \<noteq> 0),
      toISOString = show_nat,
      inherited = object_inherited\<rparr>"

definition default_config :: config where
  "default_config = \<lparr>ALPHA_VANTAGE_API_KEY = ''demo'', EXCHANGE_API_KEY = []\<rparr>"

definition paid_config :: config where
  "paid_config = \<lparr>ALPHA_VANTAGE_API_KEY = ''demo'', EXCHANGE_API_KEY = ''k1''\<rparr>"

text \<open>
  Upstreams for the examples: a provider that answers every request with an empty quote
  object, and one whose every request times out.
\<close>

definition empty_quote_upstream :: "nat option upstream" where
  "empty_quote_upstream url = Resolved (JObj [(''Global Quote'', JObj [])])"

definition timeout_upstream :: "nat option upstream" where
  "timeout_upstream url =
     Rejected \<lparr>response_status = None, response_data_message = JUndefined,
               message = ''timeout of 10000ms exceeded''\<rparr>"

text \<open>
  The free exchange-rate provider, answering every request with a table for the base
  \<^verbatim>\<open>USD\<close>.
\<close>

definition free_rates_upstream :: "nat option upstream" where
  "free_rates_upstream url =
     Resolved (JObj [(''base'', JStr ''USD''),
                     (''rates'', JObj [(''USD'', JNum (Some 1)), (''JPY'', JNum (Some 150))])])"

text \<open>
  The two exchange-rate providers behind one upstream: the paid provider's table and pair
  endpoints (for the credential \<^verbatim>\<open>k1\<close>) and the free provider's table endpoint, each
  with the payload shape the routes read; every other URL is answered with status 404.
\<close>

definition provider_upstream :: "nat option upstream" where
  "provider_upstream url =
     (if url = ''https://v6.exchangerate-api.com/v6/k1/latest/USD''
      then Resolved (JObj [(''result'', JStr ''success''), (''base_code'', JStr ''USD''),
                           (''conversion_rates'',
                            JObj [(''USD'', JNum (Some 1)), (''JPY'', JNum (Some 150))])])
      else if url = ''https://v6.exchangerate-api.com/v6/k1/pair/USD/JPY''
      then Resolved (JObj [(''result'', JStr ''success''), (''base_code'', JStr ''USD''),
                           (''target_code'', JStr ''JPY''),
                           (''conversion_rate'', JNum (Some 150))])
      else if url = ''https://api.exchangerate-api.com/v4/latest/USD''
      then Resolved (JObj [(''base'', JStr ''USD''),
                           (''rates'',
                            JObj [(''USD'', JNum (Some 1)), (''JPY'', JNum (Some 150))])])
      else Rejected \<lparr>response_status = Some 404, response_data_message = JUndefined,
                     message = ''Request failed with status code 404''\<rparr>)"

text \<open>
  A provider of rates whose entry for \<^verbatim>\<open>USD\<close> is an object with a binding named
  \<^verbatim>\<open>toString\<close>.
\<close>

definition odd_rates_upstream :: "nat option upstream" where
  "odd_rates_upstream url =
     Resolved (JObj [(''rates'', JObj [(''USD'', JObj [(''toString'', JNum (Some 1))])])])"

text \<open>A quote provider answering as the stock route expects, with numerals as strings.\<close>

definition quote_upstream :: "nat option upstream" where
  "quote_upstream url =
     Resolved (JObj [(''Global Quote'',
       JObj [(''01. symbol'', JStr ''AAPL''), (''05. price'', JStr ''150.0000''),
             (''06. volume'', JStr ''1000''), (''07. latest trading day'', JStr ''2024-01-02''),
             (''09. change'', JStr ''1.5000''), (''10. change percent'', JStr ''1.0101%'')])])"

text \<open>
  A provider that answers every request with status 200 and an empty body, one whose
  body is not JSON (the client library then hands the text over as the payload), and one
  whose payload is the JSON value \<^verbatim>\<open>null\<close>.
\<close>

definition empty_body_upstream :: "nat option upstream" where
  "empty_body_upstream url = Resolved (JStr [])"



text \<open>A coin-price provider.\<close>

definition coin_upstream :: "nat option upstream" where
  "coin_upstream url =
     Resolved (JObj [(''bitcoin'', JObj [(''usd'', JNum (Some 60000))]),
                     (''ethereum'', JObj [(''usd'', JNum (Some 3000))])])"

text \<open>
  Indicator series of twelve yearly points, 2001 to 2012: one provider lists the newest
  point first, the other the oldest. A point is newer than another when its date,
  read as a number, is greater.
\<close>

definition yearly_point :: "string \<Rightarrow> nat option jsval" where
  "yearly_point year = JObj [(''date'', JStr year), (''value'', JStr ''1.0'')]"

definition years_ascending :: "string list" where
  "years_ascending =
     [''2001'', ''2002'', ''2003'', ''2004'', ''2005'', ''2006'',
      ''2007'', ''2008'', ''2009'', ''2010'', ''2011'', ''2012'']"

definition newest_first_upstream :: "nat option upstream" where
  "newest_first_upstream url =
     Resolved (JObj [(''name'', JStr ''Real Gross Domestic Product''),
                     (''data'', JArr (map yearly_point (rev years_ascending)))])"

definition oldest_first_upstream :: "nat option upstream" where
  "oldest_first_upstream url =
     Resolved (JObj [(''name'', JStr ''Real Gross Domestic Product''),
                     (''data'', JArr (map yearly_point years_ascending))])"

definition point_year :: "nat option jsval \<Rightarrow> nat" where
  "point_year p = (case prop_of p ''date'' of JStr s \<Rightarrow> digits_value 0 s | _ \<Rightarrow> 0)"

definition newer :: "nat option jsval \<Rightarrow> nat option jsval \<Rightarrow> bool" where
  "newer p q = (point_year q < point_year p)"

section \<open>Facts about the cache and the request helper\<close>

lemma cache_get_set_same:
  "now' < now + stdTTL \<Longrightarrow> cache_get now' (cache_set now c k v) k = v"
  by (simp add: cache_get_def cache_set_def)

lemma cache_get_set_other:
  "k' \<noteq> k \<Longrightarrow> cache_get now' (cache_set now c k v) k' = cache_get now' c k'"
  by (simp add: cache_get_def cache_set_def)

lemma cache_get_later:
  "now \<le> now' \<Longrightarrow> \<not> truthy P (cache_get now c k) \<Longrightarrow> \<not> truthy P (cache_get now' c k)"
  by (auto simp: cache_get_def split: option.splits if_splits)

lemma makeAPIRequest_hit:
  "truthy P (cache_get now c k) \<Longrightarrow>
   makeAPIRequest P up now c url k = (ApiSuccess (cache_get now c k) True, c, [])"
  by (simp add: makeAPIRequest_def)

lemma makeAPIRequest_resolved:
  "\<not> truthy P (cache_get now c k) \<Longrightarrow> up url = Resolved d \<Longrightarrow>
   makeAPIRequest P up now c url k = (ApiSuccess d False, cache_set now c k d, [url])"
  by (simp add: makeAPIRequest_def)

lemma makeAPIRequest_rejected:
  "\<not> truthy P (cache_get now c k) \<Longrightarrow> up url = Rejected e \<Longrightarrow>
   makeAPIRequest P up now c url k = (ApiFailure (error_text P e) (error_status e), c, [url])"
  by (simp add: makeAPIRequest_def)

lemma app_makeAPIRequest:
  "app P cfg up now c req =
     (case makeAPIRequest P up now c (request_url cfg req) (request_key req) of
        (result, c', calls) \<Rightarrow> (respond P cfg now req result, c', calls))"
  by (cases req)
     (simp_all add: exchange_rates_def stock_def crypto_def economic_def convert_def)

lemma app_hit:
  "truthy P (cache_get now c (request_key req)) \<Longrightarrow>
   app P cfg up now c req =
     (respond P cfg now req (ApiSuccess (cache_get now c (request_key req)) True), c, [])"
  by (simp add: app_makeAPIRequest makeAPIRequest_hit)

lemma app_resolved:
  "\<not> truthy P (cache_get now c (request_key req)) \<Longrightarrow> up (request_url cfg req) = Resolved d \<Longrightarrow>
   app P cfg up now c req =
     (respond P cfg now req (ApiSuccess d False), cache_set now c (request_key req) d,
      [request_url cfg req])"
  by (simp add: app_makeAPIRequest makeAPIRequest_resolved)

lemma app_rejected:
  "\<not> truthy P (cache_get now c (request_key req)) \<Longrightarrow> up (request_url cfg req) = Rejected e \<Longrightarrow>
   app P cfg up now c req =
     (respond P cfg now req (ApiFailure (error_text P e) (error_status e)), c,
      [request_url cfg req])"
  by (simp add: app_makeAPIRequest makeAPIRequest_rejected)

lemma truthy_error_text: "truthy P (error_text P e)"
  by (simp add: error_text_def)

lemma respond_failure_envelope:
  "error_envelope P (respond P cfg now req (ApiFailure (error_text P e) st))"
  by (cases req)
     (simp_all add: error_envelope_def field_def field_names_def prop_of_def
        exchange_respond_def stock_respond_def crypto_respond_def economic_respond_def
        convert_respond_def economic_not_found_def try_catch_def truthy_error_text quoted_def)

lemma field_success_body:
  "field \<lparr>status_code = s, body = success_body P now d cached\<rparr> ''success'' = JBool True"
  "field \<lparr>status_code = s, body = success_body P now d cached\<rparr> ''data'' = d"
  "field \<lparr>status_code = s, body = success_body P now d cached\<rparr> ''cached'' = JBool cached"
  by (simp_all add: field_def prop_of_def success_body_def)


lemma respond_convert_success:
  "conversionRate P cfg to d = Inr rate \<Longrightarrow> truthy P rate \<Longrightarrow>
   times P (parseFloat P amount) rate = Inr product \<Longrightarrow>
   respond P cfg now (Convert from to amount) (ApiSuccess d cached) =
     \<lparr>status_code = 200,
      body = success_body P now (convert_data P from to amount rate product) cached\<rparr>"
  by (simp add: convert_respond_def bind_exn_def try_catch_def)

lemma respond_convert_throws:
  "conversionRate P cfg to d = Inr rate \<Longrightarrow> truthy P rate \<Longrightarrow>
   times P (parseFloat P amount) rate = Inl x \<Longrightarrow>
   respond P cfg now (Convert from to amount) (ApiSuccess d cached) =
     internal_error (''Unable to convert '' @ from @ '' to '' @ to)"
  by (simp add: convert_respond_def bind_exn_def try_catch_def)

lemma app_miss_calls:
  "\<not> truthy P (cache_get now c (request_key req)) \<Longrightarrow>
   upstream_calls (app P cfg up now c req) = [request_url cfg req]"
  by (cases "up (request_url cfg req)")
     (simp_all add: app_resolved app_rejected upstream_calls_def)

lemma sent_app_hit:
  "truthy P (cache_get now c (request_key req)) \<Longrightarrow>
   sent (app P cfg up now c req) =
     respond P cfg now req (ApiSuccess (cache_get now c (request_key req)) True)"
  by (simp add: app_hit sent_def del: app.simps respond.simps)

lemma sent_app_resolved:
  "\<not> truthy P (cache_get now c (request_key req)) \<Longrightarrow> up (request_url cfg req) = Resolved d \<Longrightarrow>
   sent (app P cfg up now c req) = respond P cfg now req (ApiSuccess d False)"
  by (simp add: app_resolved sent_def del: app.simps respond.simps)

lemma sent_app_rejected:
  "\<not> truthy P (cache_get now c (request_key req)) \<Longrightarrow> up (request_url cfg req) = Rejected e \<Longrightarrow>
   sent (app P cfg up now c req) =
     respond P cfg now req (ApiFailure (error_text P e) (error_status e))"
  by (simp add: app_rejected sent_def del: app.simps respond.simps)

lemma cache_after_app_resolved:
  "\<not> truthy P (cache_get now c (request_key req)) \<Longrightarrow> up (request_url cfg req) = Resolved d \<Longrightarrow>
   cache_after (app P cfg up now c req) = cache_set now c (request_key req) d"
  by (simp add: app_resolved cache_after_def del: app.simps respond.simps)

lemma empty_cache_miss: "\<not> truthy P (cache_get now Map.empty k)"
  by (simp add: cache_get_def)

lemma app_payload_served:
  "\<exists>cached. sent (app P cfg up now c req) =
     respond P cfg now req
       (ApiSuccess (payload_served P up now c (request_url cfg req) (request_key req)) cached)
   \<or> (\<exists>e. sent (app P cfg up now c req) =
         respond P cfg now req (ApiFailure (error_text P e) (error_status e)))"
proof (cases "truthy P (cache_get now c (request_key req))")
  case True
  then have "sent (app P cfg up now c req) =
     respond P cfg now req
       (ApiSuccess (payload_served P up now c (request_url cfg req) (request_key req)) True)"
    by (simp add: app_hit sent_def payload_served_def del: app.simps respond.simps)
  then show ?thesis by blast
next
  case False
  then show ?thesis
    by (cases "up (request_url cfg req)")
       (auto simp add: app_resolved app_rejected sent_def payload_served_def
          simp del: app.simps respond.simps)
qed

lemma field_respond_failure:
  "field (respond P cfg now req (ApiFailure (error_text P e) st)) ''success'' = JBool False"
  using respond_failure_envelope [of P cfg now req e st] by (simp add: error_envelope_def)


lemma received_names_convert_data:
  "received_names (convert_data P from to amount rate product)
     = (if json_omits rate then [''from'', ''to'', ''amount'', ''result'']
        else [''from'', ''to'', ''amount'', ''rate'', ''result''])"
  by (simp add: convert_data_def received_names_def json_omits_def Let_def)

lemma convert_data_fields:
  "prop_of (convert_data P from to amount rate product) ''amount'' = JNum (parseFloat P amount)"
  "prop_of (convert_data P from to amount rate product) ''rate'' = rate"
  "prop_of (convert_data P from to amount rate product) ''result''
     = JNum (parseFloat P (toFixed2 P product))"
  by (simp_all add: convert_data_def prop_of_def Let_def)

lemma field_internal_error:
  "field (internal_error msg) ''success'' = JBool False"
  by (simp add: internal_error_def field_def prop_of_def)

lemma convert_success_data:
  assumes "field (sent (convert P cfg up now c from to amount)) ''success'' = JBool True"
  shows "\<exists>rate product.
           field (sent (convert P cfg up now c from to amount)) ''data''
             = convert_data P from to amount rate product
         \<and> conversionRate P cfg to
              (payload_served P up now c (convert_url cfg from to) (convert_key from to))
             = Inr rate
         \<and> truthy P rate
         \<and> times P (parseFloat P amount) rate = Inr product"
proof -
  let ?req = "Convert from to amount"
  let ?d = "payload_served P up now c (convert_url cfg from to) (convert_key from to)"
  from app_payload_served [of P cfg up now c ?req] assms
  obtain cached where s: "sent (convert P cfg up now c from to amount)
      = respond P cfg now ?req (ApiSuccess ?d cached)"
    using field_respond_failure [of P cfg now ?req] by auto
  show ?thesis
  proof (cases "conversionRate P cfg to ?d")
    case (Inl e)
    with assms s show ?thesis
      by (simp add: convert_respond_def bind_exn_def try_catch_def field_internal_error)
  next
    case rate: (Inr rate)
    show ?thesis
    proof (cases "truthy P rate")
      case False
      with rate assms s show ?thesis
        by (simp add: convert_respond_def bind_exn_def try_catch_def field_def prop_of_def)
    next
      case True
      show ?thesis
      proof (cases "times P (parseFloat P amount) rate")
        case (Inl x)
        from respond_convert_throws [OF rate True Inl] assms s show ?thesis
          by (simp add: field_internal_error del: respond.simps)
      next
        case (Inr product)
        from respond_convert_success [OF rate True Inr] s
        have "field (sent (convert P cfg up now c from to amount)) ''data''
            = convert_data P from to amount rate product"
          by (simp add: field_success_body del: respond.simps)
        with rate True Inr show ?thesis
          by blast
      qed
    qed
  qed
qed

lemma cache_after_other_key:
  assumes "k \<noteq> request_key req"
  shows "cache_get now' (cache_after (app P cfg up now c req)) k = cache_get now' c k"
proof (cases "truthy P (cache_get now c (request_key req))")
  case True
  then show ?thesis
    by (simp add: app_hit cache_after_def del: app.simps respond.simps)
next
  case False
  then show ?thesis
    using assms
    by (cases "up (request_url cfg req)")
       (simp_all add: app_resolved app_rejected cache_after_def cache_get_set_other
          del: app.simps respond.simps)
qed

lemma first_conversion:
  assumes "up (convert_url cfg from to) = Resolved d"
    and "conversionRate P cfg to d = Inr rate"
    and "truthy P rate"
    and "times P (parseFloat P amount) rate = Inr product"
  shows "sent (convert P cfg up now Map.empty from to amount)
           = \<lparr>status_code = 200,
              body = success_body P now (convert_data P from to amount rate product) False\<rparr>"
proof -
  have "up (request_url cfg (Convert from to amount)) = Resolved d"
    using assms(1) by simp
  from sent_app_resolved [where up = up and cfg = cfg, OF empty_cache_miss this]
    respond_convert_success [OF assms(2,3,4)]
  show ?thesis by simp
qed

section \<open>Facts about the example platform\<close>

lemma integral_rate_150:
  "conversionRate integral_platform default_config ''JPY''
     (JObj [(''base'', JStr ''USD''),
            (''rates'', JObj [(''USD'', JNum (Some 1)), (''JPY'', JNum (Some 150))])])
   = Inr (JNum (Some 150))"
  by (simp add: conversionRate_def bind_exn_def default_config_def)

lemma integral_parse_examples:
  "parseFloat integral_platform ''100'' = Some 100"
  "parseFloat integral_platform ''250'' = Some 250"
  by (simp_all add: integral_platform_def leading_number_def)

lemma integral_times_examples:
  "times integral_platform (Some 100) (JNum (Some 1)) = Inr (Some 100)"
  "times integral_platform (Some 100) (JNum (Some 150)) = Inr (Some 15000)"
  "times integral_platform (Some 250) (JNum (Some 150)) = Inr (Some 37500)"
  "times integral_platform (Some 100) (JFunction ''toString'') = Inr None"
  "times integral_platform (Some 100) (JObj [(''toString'', JNum (Some 1))]) = Inl TypeError"
  by (simp_all add: integral_platform_def product_of_def)

lemma integral_truthy_examples:
  "truthy integral_platform (JNum (Some 1))"
  "truthy integral_platform (JNum (Some 150))"
  by (simp_all add: integral_platform_def)

lemma integral_first_conversions:
  "sent (convert integral_platform paid_config provider_upstream 0 Map.empty
      ''USD'' ''JPY'' ''100'')
     = \<lparr>status_code = 200,
        body = success_body integral_platform 0
                 (convert_data integral_platform ''USD'' ''JPY'' ''100'' (JNum (Some 150))
                    (Some 15000)) False\<rparr>"
  "sent (convert integral_platform default_config provider_upstream 0 Map.empty
      ''USD'' ''JPY'' ''100'')
     = \<lparr>status_code = 200,
        body = success_body integral_platform 0
                 (convert_data integral_platform ''USD'' ''JPY'' ''100'' (JNum (Some 150))
                    (Some 15000)) False\<rparr>"
  "sent (convert integral_platform default_config provider_upstream 0 Map.empty
      ''USD'' ''toString'' ''100'')
     = \<lparr>status_code = 200,
        body = success_body integral_platform 0
                 (convert_data integral_platform ''USD'' ''toString'' ''100''
                    (JFunction ''toString'') None) False\<rparr>"
proof -
  let ?P = integral_platform
  let ?pair = "JObj [(''result'', JStr ''success''), (''base_code'', JStr ''USD''),
                     (''target_code'', JStr ''JPY''), (''conversion_rate'', JNum (Some 150))]
               :: nat option jsval"
  let ?table = "JObj [(''base'', JStr ''USD''),
                      (''rates'', JObj [(''USD'', JNum (Some 1)), (''JPY'', JNum (Some 150))])]
                :: nat option jsval"
  have prod: "times ?P (parseFloat ?P ''100'') (JNum (Some 150)) = Inr (Some 15000)"
    unfolding integral_parse_examples by (rule integral_times_examples)
  have prod': "times ?P (parseFloat ?P ''100'') (JFunction ''toString'') = Inr None"
    unfolding integral_parse_examples by (rule integral_times_examples)
  have "provider_upstream (convert_url paid_config ''USD'' ''JPY'') = Resolved ?pair"
    by (simp add: provider_upstream_def convert_url_def paid_config_def)
  moreover have "conversionRate ?P paid_config ''JPY'' ?pair = Inr (JNum (Some 150))"
    by (simp add: conversionRate_def paid_config_def)
  ultimately show "sent (convert ?P paid_config provider_upstream 0 Map.empty
      ''USD'' ''JPY'' ''100'')
     = \<lparr>status_code = 200,
        body = success_body ?P 0
                 (convert_data ?P ''USD'' ''JPY'' ''100'' (JNum (Some 150)) (Some 15000))
                 False\<rparr>"
    using integral_truthy_examples(2) prod by (rule first_conversion)
  have free: "provider_upstream (convert_url default_config ''USD'' to) = Resolved ?table" for to
    by (simp add: provider_upstream_def convert_url_def default_config_def)
  from free integral_rate_150 integral_truthy_examples(2) prod
  show "sent (convert ?P default_config provider_upstream 0 Map.empty ''USD'' ''JPY'' ''100'')
     = \<lparr>status_code = 200,
        body = success_body ?P 0
                 (convert_data ?P ''USD'' ''JPY'' ''100'' (JNum (Some 150)) (Some 15000))
                 False\<rparr>"
    by (rule first_conversion)
  have "conversionRate ?P default_config ''toString'' ?table = Inr (JFunction ''toString'')"
    by (simp add: conversionRate_def bind_exn_def default_config_def integral_platform_def
          object_inherited_def object_prototype_functions_def)
  moreover have "truthy ?P (JFunction ''toString'')"
    by simp
  ultimately show "sent (convert ?P default_config provider_upstream 0 Map.empty
      ''USD'' ''toString'' ''100'')
     = \<lparr>status_code = 200,
        body = success_body ?P 0
                 (convert_data ?P ''USD'' ''toString'' ''100'' (JFunction ''toString'') None)
                 False\<rparr>"
    using free prod' by (intro first_conversion)
qed

section \<open>Failures and the cache\<close>

text \<open>
  Claim C1, as amended. On every route, an invocation that finds no servable entry and
  whose upstream request is rejected (transport error, timeout, non-success status)
  answers with an error envelope and leaves the cache as it was, so the same request
  made again at any later time requests the upstream URL again. A request that the
  upstream resolves has its payload stored under the key before the route looks at it,
  whatever the route then makes of the payload.
\<close>

theorem C1_rejected_request_writes_no_entry:
  assumes "\<not> truthy P (cache_get now c (request_key req))" and "now \<le> now'"
  shows "(up (request_url cfg req) = Rejected e \<longrightarrow>
            error_envelope P (sent (app P cfg up now c req))
          \<and> cache_after (app P cfg up now c req) = c
          \<and> upstream_calls (app P cfg up' now' (cache_after (app P cfg up now c req)) req)
              = [request_url cfg req])
       \<and> (up (request_url cfg req) = Resolved d \<longrightarrow>
            cache_after (app P cfg up now c req) = cache_set now c (request_key req) d)"
proof (intro conjI impI)
  assume rej: "up (request_url cfg req) = Rejected e"
  have out: "app P cfg up now c req =
      (respond P cfg now req (ApiFailure (error_text P e) (error_status e)), c,
       [request_url cfg req])"
    using assms(1) rej by (rule app_rejected)
  show "error_envelope P (sent (app P cfg up now c req))"
    by (simp add: out sent_def respond_failure_envelope)
  show same: "cache_after (app P cfg up now c req) = c"
    by (simp add: out cache_after_def)
  have later: "\<not> truthy P (cache_get now' c (request_key req))"
    using assms(2) assms(1) by (rule cache_get_later)
  show "upstream_calls (app P cfg up' now' (cache_after (app P cfg up now c req)) req)
          = [request_url cfg req]"
    unfolding same using later
    by (cases "up' (request_url cfg req)")
       (simp_all add: app_resolved app_rejected upstream_calls_def)
next
  assume "up (request_url cfg req) = Resolved d"
  with assms(1) show "cache_after (app P cfg up now c req) = cache_set now c (request_key req) d"
    by (simp add: app_resolved cache_after_def)
qed

text \<open>
  The theorem at a stock request on an empty cache: once with an upstream that times out,
  once with an upstream that resolves with an empty quote object.
\<close>

theorem C1_witness:
  "(error_envelope integral_platform
      (sent (app integral_platform default_config timeout_upstream 0 Map.empty (Stock ''ZZZZ'')))
    \<and> cache_after (app integral_platform default_config timeout_upstream 0 Map.empty (Stock ''ZZZZ''))
        = Map.empty
    \<and> upstream_calls (app integral_platform default_config timeout_upstream 5
         (cache_after (app integral_platform default_config timeout_upstream 0 Map.empty
            (Stock ''ZZZZ''))) (Stock ''ZZZZ''))
        = [''https://www.alphavantage.co/query?function=GLOBAL_QUOTE&symbol=ZZZZ&apikey=demo''])
   \<and> cache_after (app integral_platform default_config empty_quote_upstream 0 Map.empty
         (Stock ''ZZZZ''))
       = cache_set 0 Map.empty ''stock_ZZZZ'' (JObj [(''Global Quote'', JObj [])])"
proof -
  let ?req = "Stock ''ZZZZ''"
  let ?e = "\<lparr>response_status = None, response_data_message = JUndefined,
              message = ''timeout of 10000ms exceeded''\<rparr> :: nat option axios_error"
  let ?d = "JObj [(''Global Quote'', JObj [])] :: nat option jsval"
  have miss: "\<not> truthy integral_platform (cache_get 0 Map.empty (request_key ?req))"
    by (simp add: cache_get_def)
  have later: "(0::nat) \<le> 5" by simp
  have url: "request_url default_config ?req
      = ''https://www.alphavantage.co/query?function=GLOBAL_QUOTE&symbol=ZZZZ&apikey=demo''"
    by code_simp
  have key: "request_key ?req = ''stock_ZZZZ''"
    by code_simp
  have rej: "timeout_upstream (request_url default_config ?req) = Rejected ?e"
    by (simp add: timeout_upstream_def)
  have res: "empty_quote_upstream (request_url default_config ?req) = Resolved ?d"
    by (simp add: empty_quote_upstream_def)
  have a: "error_envelope integral_platform
      (sent (app integral_platform default_config timeout_upstream 0 Map.empty ?req))
    \<and> cache_after (app integral_platform default_config timeout_upstream 0 Map.empty ?req)
        = Map.empty
    \<and> upstream_calls (app integral_platform default_config timeout_upstream 5
         (cache_after (app integral_platform default_config timeout_upstream 0 Map.empty ?req))
         ?req)
        = [request_url default_config ?req]"
    using C1_rejected_request_writes_no_entry [where cfg = default_config
        and up = timeout_upstream and up' = timeout_upstream and e = ?e, OF miss later] rej
    by blast
  have b: "cache_after (app integral_platform default_config empty_quote_upstream 0 Map.empty ?req)
       = cache_set 0 Map.empty (request_key ?req) ?d"
    using C1_rejected_request_writes_no_entry [where cfg = default_config
        and up = empty_quote_upstream and d = ?d, OF miss later] res
    by blast
  from a b show ?thesis unfolding url key by (intro conjI) blast+
qed

text \<open>
  Claim C1 as stated fails for a result that the route classifies as a failure: the
  provider resolves the request for \<^verbatim>\<open>ZZZZ\<close> with an empty quote object, the route answers
  404 with \<^verbatim>\<open>success: false\<close>, the payload is in the cache under the key of the request,
  and the same request one second later is answered without an upstream request.
\<close>

theorem C1_counterexample:
  "field (sent (app integral_platform default_config empty_quote_upstream 0 Map.empty
            (Stock ''ZZZZ''))) ''success'' = JBool False
   \<and> status_code (sent (app integral_platform default_config empty_quote_upstream 0 Map.empty
            (Stock ''ZZZZ''))) = 404
   \<and> cache_get 1 (cache_after (app integral_platform default_config empty_quote_upstream 0
            Map.empty (Stock ''ZZZZ''))) (request_key (Stock ''ZZZZ''))
       = JObj [(''Global Quote'', JObj [])]
   \<and> upstream_calls (app integral_platform default_config empty_quote_upstream 1
         (cache_after (app integral_platform default_config empty_quote_upstream 0 Map.empty
            (Stock ''ZZZZ''))) (Stock ''ZZZZ'')) = []"
  by code_simp

section \<open>Conversion between equal currencies\<close>

text \<open>
  Claim C2, as amended. The conversion route has no case for equal currencies: a
  conversion from a currency to itself that finds no servable cache entry requests the
  provider's URL for the pair like any other conversion. When the request resolves with
  a payload carrying a truthy rate, the payload is stored under
  \<^verbatim>\<open>convert_<from>_<from>\<close>; the envelope then carries that rate and the result computed
  from the product of the amount and the rate, or, when forming the product throws, the
  answer is the error envelope with status 500.
\<close>

theorem C2_same_currency_requests_upstream:
  assumes "\<not> truthy P (cache_get now c (convert_key from from))"
  shows "upstream_calls (convert P cfg up now c from from amount) = [convert_url cfg from from]
       \<and> (up (convert_url cfg from from) = Resolved d \<and> conversionRate P cfg from d = Inr rate
            \<and> truthy P rate \<and> times P (parseFloat P amount) rate = Inr product \<longrightarrow>
          convert P cfg up now c from from amount =
            (\<lparr>status_code = 200,
              body = success_body P now (convert_data P from from amount rate product) False\<rparr>,
             cache_set now c (convert_key from from) d,
             [convert_url cfg from from]))
       \<and> (up (convert_url cfg from from) = Resolved d \<and> conversionRate P cfg from d = Inr rate
            \<and> truthy P rate \<and> times P (parseFloat P amount) rate = Inl x \<longrightarrow>
          convert P cfg up now c from from amount =
            (internal_error (''Unable to convert '' @ from @ '' to '' @ from),
             cache_set now c (convert_key from from) d,
             [convert_url cfg from from]))"
proof -
  let ?req = "Convert from from amount"
  have miss: "\<not> truthy P (cache_get now c (request_key ?req))"
    using assms by simp
  have calls: "upstream_calls (app P cfg up now c ?req) = [request_url cfg ?req]"
    using miss by (rule app_miss_calls)
  have full: "app P cfg up now c ?req =
      (\<lparr>status_code = 200,
        body = success_body P now (convert_data P from from amount rate product) False\<rparr>,
       cache_set now c (request_key ?req) d, [request_url cfg ?req])"
    if "up (request_url cfg ?req) = Resolved d" "conversionRate P cfg from d = Inr rate"
       "truthy P rate" "times P (parseFloat P amount) rate = Inr product"
    using app_resolved [where up = up and cfg = cfg, OF miss that(1)]
      respond_convert_success [OF that(2) that(3) that(4)]
    by simp
  have thrown: "app P cfg up now c ?req =
      (internal_error (''Unable to convert '' @ from @ '' to '' @ from),
       cache_set now c (request_key ?req) d, [request_url cfg ?req])"
    if "up (request_url cfg ?req) = Resolved d" "conversionRate P cfg from d = Inr rate"
       "truthy P rate" "times P (parseFloat P amount) rate = Inl x"
    using app_resolved [where up = up and cfg = cfg, OF miss that(1)]
      respond_convert_throws [OF that(2) that(3) that(4)]
    by simp
  from calls full thrown show ?thesis by simp
qed

text \<open>
  The theorem at a conversion of 100 from USD to USD with the free provider: once with
  an ordinary table, once with a table whose rate for USD is an object that cannot be
  converted to a number.
\<close>

theorem C2_witness:
  "upstream_calls (convert integral_platform default_config free_rates_upstream 0 Map.empty
      ''USD'' ''USD'' ''100'') = [''https://api.exchangerate-api.com/v4/latest/USD'']
   \<and> convert integral_platform default_config free_rates_upstream 0 Map.empty
        ''USD'' ''USD'' ''100'' =
       (\<lparr>status_code = 200,
         body = success_body integral_platform 0
                  (convert_data integral_platform ''USD'' ''USD'' ''100'' (JNum (Some 1))
                     (Some 100)) False\<rparr>,
        cache_set 0 Map.empty ''convert_USD_USD''
          (JObj [(''base'', JStr ''USD''),
                 (''rates'', JObj [(''USD'', JNum (Some 1)), (''JPY'', JNum (Some 150))])]),
        [''https://api.exchangerate-api.com/v4/latest/USD''])
   \<and> convert integral_platform default_config odd_rates_upstream 0 Map.empty
        ''USD'' ''USD'' ''100'' =
       (internal_error (''Unable to convert '' @ ''USD'' @ '' to '' @ ''USD''),
        cache_set 0 Map.empty ''convert_USD_USD''
          (JObj [(''rates'', JObj [(''USD'', JObj [(''toString'', JNum (Some 1))])])]),
        [''https://api.exchangerate-api.com/v4/latest/USD''])"
proof -
  let ?P = integral_platform
  let ?d = "JObj [(''base'', JStr ''USD''),
                  (''rates'', JObj [(''USD'', JNum (Some 1)), (''JPY'', JNum (Some 150))])]
            :: nat option jsval"
  let ?odd = "JObj [(''rates'', JObj [(''USD'', JObj [(''toString'', JNum (Some 1))])])]
              :: nat option jsval"
  have miss: "\<not> truthy ?P (cache_get 0 Map.empty (convert_key ''USD'' ''USD''))"
    by (rule empty_cache_miss)
  have url: "convert_url default_config ''USD'' ''USD''
      = ''https://api.exchangerate-api.com/v4/latest/USD''"
    by (simp add: convert_url_def default_config_def)
  have key: "convert_key ''USD'' ''USD'' = ''convert_USD_USD''"
    by (simp add: convert_key_def)
  have res: "free_rates_upstream (convert_url default_config ''USD'' ''USD'') = Resolved ?d"
    by (simp add: free_rates_upstream_def)
  have rate: "conversionRate ?P default_config ''USD'' ?d = Inr (JNum (Some 1))"
    by (simp add: conversionRate_def bind_exn_def default_config_def)
  have tr: "truthy ?P (JNum (Some 1))"
    by (rule integral_truthy_examples)
  have prod: "times ?P (parseFloat ?P ''100'') (JNum (Some 1)) = Inr (Some 100)"
    unfolding integral_parse_examples by (simp add: integral_platform_def product_of_def)
  have res': "odd_rates_upstream (convert_url default_config ''USD'' ''USD'') = Resolved ?odd"
    by (simp add: odd_rates_upstream_def)
  have rate': "conversionRate ?P default_config ''USD'' ?odd
      = Inr (JObj [(''toString'', JNum (Some 1))])"
    by (simp add: conversionRate_def bind_exn_def default_config_def)
  have tr': "truthy ?P (JObj [(''toString'', JNum (Some 1))])"
    by simp
  have prod': "times ?P (parseFloat ?P ''100'') (JObj [(''toString'', JNum (Some 1))])
      = Inl TypeError"
    unfolding integral_parse_examples by (simp add: integral_platform_def product_of_def)
  from C2_same_currency_requests_upstream [where cfg = default_config
      and up = free_rates_upstream and d = ?d and rate = "JNum (Some 1)" and amount = "''100''"
      and product = "Some 100", OF miss] res rate tr prod
  have a: "upstream_calls (convert ?P default_config free_rates_upstream 0 Map.empty
      ''USD'' ''USD'' ''100'') = [convert_url default_config ''USD'' ''USD'']
    \<and> convert ?P default_config free_rates_upstream 0 Map.empty ''USD'' ''USD'' ''100'' =
       (\<lparr>status_code = 200,
         body = success_body ?P 0
                  (convert_data ?P ''USD'' ''USD'' ''100'' (JNum (Some 1)) (Some 100)) False\<rparr>,
        cache_set 0 Map.empty (convert_key ''USD'' ''USD'') ?d,
        [convert_url default_config ''USD'' ''USD''])"
    by blast
  from C2_same_currency_requests_upstream [where cfg = default_config
      and up = odd_rates_upstream and d = ?odd
      and rate = "JObj [(''toString'', JNum (Some 1))]" and amount = "''100''"
      and x = TypeError, OF miss] res' rate' tr' prod'
  have b: "convert ?P default_config odd_rates_upstream 0 Map.empty ''USD'' ''USD'' ''100'' =
       (internal_error (''Unable to convert '' @ ''USD'' @ '' to '' @ ''USD''),
        cache_set 0 Map.empty (convert_key ''USD'' ''USD'') ?odd,
        [convert_url default_config ''USD'' ''USD''])"
    by blast
  from a b show ?thesis unfolding url key by blast
qed

text \<open>
  Claim C2 as stated fails: converting 100 from USD to USD on an empty cache requests the
  provider. When the request times out the answer is an error envelope, not a rate of 1;
  when it resolves, the payload occupies the cache slot \<^verbatim>\<open>convert_USD_USD\<close>.
\<close>

theorem C2_counterexample:
  "upstream_calls (app integral_platform default_config timeout_upstream 0 Map.empty
      (Convert ''USD'' ''USD'' ''100'')) = [''https://api.exchangerate-api.com/v4/latest/USD'']
   \<and> field (sent (app integral_platform default_config timeout_upstream 0 Map.empty
      (Convert ''USD'' ''USD'' ''100''))) ''success'' = JBool False
   \<and> upstream_calls (app integral_platform default_config free_rates_upstream 0 Map.empty
      (Convert ''USD'' ''USD'' ''100'')) = [''https://api.exchangerate-api.com/v4/latest/USD'']
   \<and> cache_after (app integral_platform default_config free_rates_upstream 0 Map.empty
      (Convert ''USD'' ''USD'' ''100'')) ''convert_USD_USD'' \<noteq> None"
proof -
  let ?P = integral_platform
  let ?req = "Convert ''USD'' ''USD'' ''100''"
  let ?e = "\<lparr>response_status = None, response_data_message = JUndefined,
              message = ''timeout of 10000ms exceeded''\<rparr> :: nat option axios_error"
  let ?d = "JObj [(''base'', JStr ''USD''),
                  (''rates'', JObj [(''USD'', JNum (Some 1)), (''JPY'', JNum (Some 150))])]
            :: nat option jsval"
  have miss: "\<not> truthy ?P (cache_get 0 Map.empty (request_key ?req))"
    by (rule empty_cache_miss)
  have url: "request_url default_config ?req = ''https://api.exchangerate-api.com/v4/latest/USD''"
    by (simp add: convert_url_def default_config_def)
  have key: "request_key ?req = ''convert_USD_USD''"
    by (simp add: convert_key_def)
  have rej: "timeout_upstream (request_url default_config ?req) = Rejected ?e"
    by (simp add: timeout_upstream_def)
  have res: "free_rates_upstream (request_url default_config ?req) = Resolved ?d"
    by (simp add: free_rates_upstream_def)
  have calls: "upstream_calls (app ?P default_config up 0 Map.empty ?req)
      = [''https://api.exchangerate-api.com/v4/latest/USD'']" for up
    using app_miss_calls [OF miss, of default_config up] unfolding url .
  have failed: "field (sent (app ?P default_config timeout_upstream 0 Map.empty ?req)) ''success''
      = JBool False"
    using sent_app_rejected [where up = timeout_upstream and cfg = default_config, OF miss rej]
      field_respond_failure [of ?P default_config 0 ?req ?e]
    by (simp del: app.simps respond.simps)
  have stored: "cache_after (app ?P default_config free_rates_upstream 0 Map.empty ?req)
      ''convert_USD_USD'' \<noteq> None"
    using cache_after_app_resolved [where up = free_rates_upstream and cfg = default_config,
        OF miss res]
    by (simp add: key cache_set_def del: app.simps request_key.simps)
  from calls failed stored show ?thesis by blast
qed

section \<open>The shape of the data across the two exchange-rate providers\<close>




text \<open>
  The condition on the rate is needed: the route reads \<^verbatim>\<open>rates[to]\<close> without asking
  whether \<^verbatim>\<open>to\<close> is an own binding of the table, so for \<^verbatim>\<open>to = toString\<close> the rate is a
  built-in function, the answer is still a success, and the JSON text has no \<^verbatim>\<open>rate\<close>.
\<close>

lemma inherited_rate_left_out:
  "received_names (field (sent (convert integral_platform default_config provider_upstream 0
      Map.empty ''USD'' ''toString'' ''100'')) ''data'') = [''from'', ''to'', ''amount'', ''result'']"
  by (simp add: integral_first_conversions field_success_body received_names_convert_data
        json_omits_def)


section \<open>Letter case and cache keys\<close>

lemma toUpperCase_char_same_letter:
  assumes "same_letter a b"
  shows "toUpperCase_char a = toUpperCase_char b"
proof -
  have up: "toUpperCase_char x = y"
    if "is_lower x" "is_upper y" "(of_char x :: nat) = of_char y + 32" for x y
  proof -
    from that have "toUpperCase_char x = char_of (of_char y :: nat)"
      by (simp add: toUpperCase_char_def is_lower_def Let_def)
    then show ?thesis by simp
  qed
  have fixed: "toUpperCase_char y = y" if "is_upper y" for y
    using that by (simp add: toUpperCase_char_def is_upper_def Let_def)
  from assms consider "a = b"
    | "is_lower a" "is_upper b" "(of_char a :: nat) = of_char b + 32"
    | "is_upper a" "is_lower b" "(of_char b :: nat) = of_char a + 32"
    by (auto simp: same_letter_def)
  then show ?thesis
  proof cases
    case 1
    then show ?thesis by simp
  next
    case 2
    then show ?thesis by (simp add: up fixed)
  next
    case 3
    then show ?thesis by (simp add: up fixed)
  qed
qed

lemma toUpperCase_differ_in_case_only:
  "differ_in_case_only s t \<Longrightarrow> toUpperCase s = toUpperCase t"
  unfolding differ_in_case_only_def toUpperCase_def
  by (induction s t rule: list_all2_induct) (simp_all add: toUpperCase_char_same_letter)

text \<open>
  Claim C4, as amended. For the stock-quote and economic-indicator routes, two requests
  whose parameter differs only in letter case have the same cache key and therefore read
  the same cache entry: both routes upper-case the parameter before building the key.
\<close>

theorem C4_symbol_and_indicator_keys_ignore_case:
  assumes "differ_in_case_only s t"
  shows "request_key (Stock s) = request_key (Stock t)
       \<and> request_key (Economic s) = request_key (Economic t)
       \<and> cache_get now c (request_key (Stock s)) = cache_get now c (request_key (Stock t))
       \<and> cache_get now c (request_key (Economic s)) = cache_get now c (request_key (Economic t))"
  using toUpperCase_differ_in_case_only [OF assms]
  by (simp add: stock_key_def economic_key_def)

text \<open>The theorem at the symbols \<^verbatim>\<open>aapl\<close> and \<^verbatim>\<open>AAPL\<close>.\<close>

theorem C4_witness:
  "request_key (Stock ''aapl'') = request_key (Stock ''AAPL'')
   \<and> request_key (Economic ''aapl'') = request_key (Economic ''AAPL'')
   \<and> cache_get 0 Map.empty (request_key (Stock ''aapl''))
       = (cache_get 0 Map.empty (request_key (Stock ''AAPL'')) :: nat option jsval)
   \<and> cache_get 0 Map.empty (request_key (Economic ''aapl''))
       = (cache_get 0 Map.empty (request_key (Economic ''AAPL'')) :: nat option jsval)"
proof -
  have "differ_in_case_only ''aapl'' ''AAPL''"
    by (simp add: differ_in_case_only_def same_letter_def is_lower_def is_upper_def)
  from C4_symbol_and_indicator_keys_ignore_case [OF this] show ?thesis .
qed

text \<open>
  Claim C4 as stated fails for currency codes: the conversion and exchange-rate routes
  build the key from the parameter text as given, so \<^verbatim>\<open>usd\<close> and \<^verbatim>\<open>USD\<close> give distinct
  keys.
\<close>

theorem C4_counterexample:
  "differ_in_case_only ''usd'' ''USD''
   \<and> request_key (Convert ''usd'' ''EUR'' ''100'') \<noteq> request_key (Convert ''USD'' ''EUR'' ''100'')
   \<and> request_key (ExchangeRates (Some ''usd'')) \<noteq> request_key (ExchangeRates (Some ''USD''))"
  by (simp add: differ_in_case_only_def same_letter_def is_lower_def is_upper_def
        convert_key_def exchange_key_def)

section \<open>Numeric fields of a success envelope\<close>

lemma stock_success_data:
  assumes "field (sent (stock P cfg up now c symbol_param)) ''success'' = JBool True"
  shows "field (sent (stock P cfg up now c symbol_param)) ''data''
           = stock_data (prop_of (payload_served P up now c (stock_url cfg symbol_param)
                                    (stock_key symbol_param)) ''Global Quote'')"
proof -
  let ?req = "Stock symbol_param"
  let ?d = "payload_served P up now c (stock_url cfg symbol_param) (stock_key symbol_param)"
  from app_payload_served [of P cfg up now c ?req] assms
  obtain cached where s: "sent (stock P cfg up now c symbol_param)
      = try_catch (stock_respond P now (toUpperCase symbol_param) (ApiSuccess ?d cached))
          (''Unable to fetch stock data for '' @ toUpperCase symbol_param)"
    using field_respond_failure [of P cfg now ?req] by auto
  show ?thesis
  proof (cases "get_prop ?d ''Global Quote''")
    case (Inl e)
    with assms s show ?thesis
      by (simp add: stock_respond_def bind_exn_def try_catch_def internal_error_def
            field_def prop_of_def)
  next
    case (Inr quote)
    show ?thesis
    proof (cases "truthy P quote \<and> 0 < keys_length quote")
      case True
      with Inr s show ?thesis
        by (simp add: stock_respond_def bind_exn_def try_catch_def field_success_body prop_of_def)
    next
      case False
      with Inr assms s show ?thesis
        by (auto simp add: stock_respond_def bind_exn_def try_catch_def field_def prop_of_def)
    qed
  qed
qed

lemma stock_data_fields:
  "prop_of (stock_data quote) ''price'' = prop_of quote ''05. price''"
  "prop_of (stock_data quote) ''change'' = prop_of quote ''09. change''"
  "prop_of (stock_data quote) ''volume'' = prop_of quote ''06. volume''"
  by (simp_all add: stock_data_def prop_of_def)

text \<open>
  Claim C5, as amended. In the success envelope of a conversion, \<^verbatim>\<open>amount\<close> is the number
  \<^verbatim>\<open>parseFloat(amount)\<close> and \<^verbatim>\<open>result\<close> is the number that \<^verbatim>\<open>parseFloat\<close> reads from the
  product of the amount and the rate printed with two decimals; the \<^verbatim>\<open>rate\<close> is the value
  the route read from the payload it was answered from (\<^verbatim>\<open>conversion_rate\<close>, or
  \<^verbatim>\<open>rates[to]\<close>), of whatever type that value is. In the success
  envelope of a stock quote, \<^verbatim>\<open>price\<close>, \<^verbatim>\<open>change\<close> and \<^verbatim>\<open>volume\<close> are the values bound to
  \<^verbatim>\<open>05. price\<close>, \<^verbatim>\<open>09. change\<close> and \<^verbatim>\<open>06. volume\<close> in the quote object of the payload, as
  received.
\<close>

theorem C5_amount_and_result_are_numbers_rest_as_received:
  "(field (sent (convert P cfg up now c from to amount)) ''success'' = JBool True \<longrightarrow>
      prop_of (field (sent (convert P cfg up now c from to amount)) ''data'') ''amount''
        = JNum (parseFloat P amount)
    \<and> (\<exists>product.
          times P (parseFloat P amount)
            (prop_of (field (sent (convert P cfg up now c from to amount)) ''data'') ''rate'')
            = Inr product
        \<and> prop_of (field (sent (convert P cfg up now c from to amount)) ''data'') ''result''
            = JNum (parseFloat P (toFixed2 P product)))
    \<and> conversionRate P cfg to
         (payload_served P up now c (convert_url cfg from to) (convert_key from to))
       = Inr (prop_of (field (sent (convert P cfg up now c from to amount)) ''data'') ''rate''))
   \<and> (field (sent (stock P cfg up now c symbol_param)) ''success'' = JBool True \<longrightarrow>
      prop_of (field (sent (stock P cfg up now c symbol_param)) ''data'') ''price''
        = prop_of (prop_of (payload_served P up now c (stock_url cfg symbol_param)
                              (stock_key symbol_param)) ''Global Quote'') ''05. price''
    \<and> prop_of (field (sent (stock P cfg up now c symbol_param)) ''data'') ''change''
        = prop_of (prop_of (payload_served P up now c (stock_url cfg symbol_param)
                              (stock_key symbol_param)) ''Global Quote'') ''09. change''
    \<and> prop_of (field (sent (stock P cfg up now c symbol_param)) ''data'') ''volume''
        = prop_of (prop_of (payload_served P up now c (stock_url cfg symbol_param)
                              (stock_key symbol_param)) ''Global Quote'') ''06. volume'')"
proof (intro conjI impI)
  assume ok: "field (sent (convert P cfg up now c from to amount)) ''success'' = JBool True"
  from convert_success_data [OF ok] obtain rate product where
    d: "field (sent (convert P cfg up now c from to amount)) ''data''
          = convert_data P from to amount rate product"
    and r: "conversionRate P cfg to
          (payload_served P up now c (convert_url cfg from to) (convert_key from to)) = Inr rate"
    and p: "times P (parseFloat P amount) rate = Inr product"
    by blast
  show "prop_of (field (sent (convert P cfg up now c from to amount)) ''data'') ''amount''
        = JNum (parseFloat P amount)"
    unfolding d by (rule convert_data_fields)
  show "\<exists>product.
          times P (parseFloat P amount)
            (prop_of (field (sent (convert P cfg up now c from to amount)) ''data'') ''rate'')
            = Inr product
        \<and> prop_of (field (sent (convert P cfg up now c from to amount)) ''data'') ''result''
            = JNum (parseFloat P (toFixed2 P product))"
    unfolding d convert_data_fields using p by blast
  show "conversionRate P cfg to
         (payload_served P up now c (convert_url cfg from to) (convert_key from to))
       = Inr (prop_of (field (sent (convert P cfg up now c from to amount)) ''data'') ''rate'')"
    unfolding d convert_data_fields by (rule r)
next
  assume "field (sent (stock P cfg up now c symbol_param)) ''success'' = JBool True"
  note d = stock_success_data [OF this]
  show "prop_of (field (sent (stock P cfg up now c symbol_param)) ''data'') ''price''
        = prop_of (prop_of (payload_served P up now c (stock_url cfg symbol_param)
                              (stock_key symbol_param)) ''Global Quote'') ''05. price''"
    and "prop_of (field (sent (stock P cfg up now c symbol_param)) ''data'') ''change''
        = prop_of (prop_of (payload_served P up now c (stock_url cfg symbol_param)
                              (stock_key symbol_param)) ''Global Quote'') ''09. change''"
    and "prop_of (field (sent (stock P cfg up now c symbol_param)) ''data'') ''volume''
        = prop_of (prop_of (payload_served P up now c (stock_url cfg symbol_param)
                              (stock_key symbol_param)) ''Global Quote'') ''06. volume''"
    unfolding d by (rule stock_data_fields)+
qed

text \<open>
  The theorem at a conversion of 100 from USD to JPY and at a quote for \<^verbatim>\<open>AAPL\<close>, both
  answered by the upstream on an empty cache.
\<close>

theorem C5_witness:
  "(prop_of (field (sent (convert integral_platform default_config provider_upstream 0
      Map.empty ''USD'' ''JPY'' ''100'')) ''data'') ''amount''
      = JNum (parseFloat integral_platform ''100'')
    \<and> (\<exists>product.
          times integral_platform (parseFloat integral_platform ''100'')
            (prop_of (field (sent (convert integral_platform default_config provider_upstream 0
               Map.empty ''USD'' ''JPY'' ''100'')) ''data'') ''rate'') = Inr product
        \<and> prop_of (field (sent (convert integral_platform default_config provider_upstream 0
              Map.empty ''USD'' ''JPY'' ''100'')) ''data'') ''result''
            = JNum (parseFloat integral_platform (toFixed2 integral_platform product)))
    \<and> conversionRate integral_platform default_config ''JPY''
         (payload_served integral_platform provider_upstream 0 Map.empty
            (convert_url default_config ''USD'' ''JPY'') (convert_key ''USD'' ''JPY''))
       = Inr (prop_of (field (sent (convert integral_platform default_config provider_upstream 0
           Map.empty ''USD'' ''JPY'' ''100'')) ''data'') ''rate''))
   \<and> (prop_of (field (sent (stock integral_platform default_config quote_upstream 0 Map.empty
        ''AAPL'')) ''data'') ''price''
      = prop_of (prop_of (payload_served integral_platform quote_upstream 0 Map.empty
                            (stock_url default_config ''AAPL'') (stock_key ''AAPL''))
                   ''Global Quote'') ''05. price''
    \<and> prop_of (field (sent (stock integral_platform default_config quote_upstream 0 Map.empty
        ''AAPL'')) ''data'') ''change''
      = prop_of (prop_of (payload_served integral_platform quote_upstream 0 Map.empty
                            (stock_url default_config ''AAPL'') (stock_key ''AAPL''))
                   ''Global Quote'') ''09. change''
    \<and> prop_of (field (sent (stock integral_platform default_config quote_upstream 0 Map.empty
        ''AAPL'')) ''data'') ''volume''
      = prop_of (prop_of (payload_served integral_platform quote_upstream 0 Map.empty
                            (stock_url default_config ''AAPL'') (stock_key ''AAPL''))
                   ''Global Quote'') ''06. volume'')"
proof -
  let ?P = integral_platform
  let ?quote = "JObj [(''Global Quote'',
       JObj [(''01. symbol'', JStr ''AAPL''), (''05. price'', JStr ''150.0000''),
             (''06. volume'', JStr ''1000''), (''07. latest trading day'', JStr ''2024-01-02''),
             (''09. change'', JStr ''1.5000''), (''10. change percent'', JStr ''1.0101%'')])]
       :: nat option jsval"
  let ?stock = "Stock ''AAPL''"
  have conv: "field (sent (convert ?P default_config provider_upstream 0 Map.empty
      ''USD'' ''JPY'' ''100'')) ''success'' = JBool True"
    unfolding integral_first_conversions by (rule field_success_body)
  have "quote_upstream (request_url default_config ?stock) = Resolved ?quote"
    by (simp add: quote_upstream_def)
  from sent_app_resolved [where up = quote_upstream and cfg = default_config and req = "?stock"
      and P = ?P and now = 0, OF empty_cache_miss this]
  have "sent (app ?P default_config quote_upstream 0 Map.empty ?stock)
      = respond ?P default_config 0 ?stock (ApiSuccess ?quote False)" .
  moreover have "field (respond ?P default_config 0 ?stock (ApiSuccess ?quote False)) ''success''
      = JBool True"
    by (simp add: stock_respond_def bind_exn_def try_catch_def field_success_body)
  ultimately have quote: "field (sent (stock ?P default_config quote_upstream 0 Map.empty
      ''AAPL'')) ''success'' = JBool True"
    by simp
  from conv
    C5_amount_and_result_are_numbers_rest_as_received [of ?P default_config provider_upstream 0
      Map.empty "''USD''" "''JPY''" "''100''" "''AAPL''"]
  have a: "prop_of (field (sent (convert ?P default_config provider_upstream 0
      Map.empty ''USD'' ''JPY'' ''100'')) ''data'') ''amount'' = JNum (parseFloat ?P ''100'')
    \<and> (\<exists>product.
          times ?P (parseFloat ?P ''100'')
            (prop_of (field (sent (convert ?P default_config provider_upstream 0
               Map.empty ''USD'' ''JPY'' ''100'')) ''data'') ''rate'') = Inr product
        \<and> prop_of (field (sent (convert ?P default_config provider_upstream 0
              Map.empty ''USD'' ''JPY'' ''100'')) ''data'') ''result''
            = JNum (parseFloat ?P (toFixed2 ?P product)))
    \<and> conversionRate ?P default_config ''JPY''
         (payload_served ?P provider_upstream 0 Map.empty
            (convert_url default_config ''USD'' ''JPY'') (convert_key ''USD'' ''JPY''))
       = Inr (prop_of (field (sent (convert ?P default_config provider_upstream 0
           Map.empty ''USD'' ''JPY'' ''100'')) ''data'') ''rate'')"
    by blast
  from quote
    C5_amount_and_result_are_numbers_rest_as_received [of ?P default_config quote_upstream 0
      Map.empty "''USD''" "''JPY''" "''100''" "''AAPL''"]
  have b: "prop_of (field (sent (stock ?P default_config quote_upstream 0 Map.empty
        ''AAPL'')) ''data'') ''price''
      = prop_of (prop_of (payload_served ?P quote_upstream 0 Map.empty
                            (stock_url default_config ''AAPL'') (stock_key ''AAPL''))
                   ''Global Quote'') ''05. price''
    \<and> prop_of (field (sent (stock ?P default_config quote_upstream 0 Map.empty
        ''AAPL'')) ''data'') ''change''
      = prop_of (prop_of (payload_served ?P quote_upstream 0 Map.empty
                            (stock_url default_config ''AAPL'') (stock_key ''AAPL''))
                   ''Global Quote'') ''09. change''
    \<and> prop_of (field (sent (stock ?P default_config quote_upstream 0 Map.empty
        ''AAPL'')) ''data'') ''volume''
      = prop_of (prop_of (payload_served ?P quote_upstream 0 Map.empty
                            (stock_url default_config ''AAPL'') (stock_key ''AAPL''))
                   ''Global Quote'') ''06. volume''"
    by blast
  from a b show ?thesis by blast
qed

text \<open>
  Claim C5 as stated fails for a stock quote: the provider sends the price as the string
  \<^verbatim>\<open>150.0000\<close>, and the success envelope carries that string, not a number.
\<close>

theorem C5_counterexample:
  "field (sent (app integral_platform default_config quote_upstream 0 Map.empty (Stock ''AAPL'')))
     ''success'' = JBool True
   \<and> prop_of (field (sent (app integral_platform default_config quote_upstream 0 Map.empty
        (Stock ''AAPL''))) ''data'') ''price'' = JStr ''150.0000''
   \<and> \<not> is_number (prop_of (field (sent (app integral_platform default_config quote_upstream 0
        Map.empty (Stock ''AAPL''))) ''data'') ''price'')"
proof -
  let ?P = integral_platform
  let ?quote = "JObj [(''Global Quote'',
       JObj [(''01. symbol'', JStr ''AAPL''), (''05. price'', JStr ''150.0000''),
             (''06. volume'', JStr ''1000''), (''07. latest trading day'', JStr ''2024-01-02''),
             (''09. change'', JStr ''1.5000''), (''10. change percent'', JStr ''1.0101%'')])]
       :: nat option jsval"
  let ?stock = "Stock ''AAPL''"
  have "quote_upstream (request_url default_config ?stock) = Resolved ?quote"
    by (simp add: quote_upstream_def)
  from sent_app_resolved [where up = quote_upstream and cfg = default_config and req = "?stock"
      and P = ?P and now = 0, OF empty_cache_miss this]
  have s: "sent (app ?P default_config quote_upstream 0 Map.empty ?stock)
      = respond ?P default_config 0 ?stock (ApiSuccess ?quote False)" .
  have ok: "field (respond ?P default_config 0 ?stock (ApiSuccess ?quote False)) ''success''
      = JBool True"
    by (simp add: stock_respond_def bind_exn_def try_catch_def field_success_body)
  have price: "prop_of (field (respond ?P default_config 0 ?stock (ApiSuccess ?quote False))
      ''data'') ''price'' = JStr ''150.0000''"
    by (simp add: stock_respond_def bind_exn_def try_catch_def field_success_body
          stock_data_fields) (simp add: prop_of_def)
  from ok price show ?thesis
    unfolding s by (simp add: is_number_def)
qed

section \<open>Repeating a request within the time to live\<close>

text \<open>
  When a request is answered by the upstream with a truthy payload, the same request made
  again before the entry expires is answered from the cache, with no upstream request.
\<close>

lemma repeat_within_ttl:
  assumes "\<not> truthy P (cache_get now c (request_key req))"
    and "up (request_url cfg req) = Resolved d"
    and "truthy P d"
    and "now' < now + stdTTL"
  shows "app P cfg up' now' (cache_after (app P cfg up now c req)) req
           = (respond P cfg now' req (ApiSuccess d True),
              cache_after (app P cfg up now c req), [])"
proof -
  have c': "cache_after (app P cfg up now c req) = cache_set now c (request_key req) d"
    using assms(1,2) by (rule cache_after_app_resolved)
  have got: "cache_get now' (cache_set now c (request_key req) d) (request_key req) = d"
    using assms(4) by (rule cache_get_set_same)
  with assms(3) have "truthy P (cache_get now' (cache_set now c (request_key req) d) (request_key req))"
    by simp
  from app_hit [OF this] show ?thesis
    unfolding c' got .
qed

text \<open>
  Claim C6 at a payload that is not truthy. The provider resolves the crypto request with
  an empty body; the first invocation answers with a success envelope and stores the
  empty string. One second later the entry is servable, but \<^verbatim>\<open>if (cachedData)\<close> takes the
  stored empty string for a miss: the second invocation requests the upstream again and
  answers with \<^verbatim>\<open>cached: false\<close>.
\<close>

theorem C6_empty_payload_is_requested_again:
  "field (sent (app integral_platform default_config empty_body_upstream 0 Map.empty
      (Crypto (Some ''bitcoin'')))) ''success'' = JBool True
   \<and> upstream_calls (app integral_platform default_config empty_body_upstream 1
        (cache_after (app integral_platform default_config empty_body_upstream 0 Map.empty
           (Crypto (Some ''bitcoin'')))) (Crypto (Some ''bitcoin'')))
      = [''https://api.coingecko.com/api/v3/simple/price?ids=bitcoin&vs_currencies=usd&include_24hr_change=true&include_market_cap=true'']
   \<and> field (sent (app integral_platform default_config empty_body_upstream 1
        (cache_after (app integral_platform default_config empty_body_upstream 0 Map.empty
           (Crypto (Some ''bitcoin'')))) (Crypto (Some ''bitcoin'')))) ''cached'' = JBool False"
proof -
  let ?P = integral_platform
  let ?req = "Crypto (Some ''bitcoin'')"
  let ?c1 = "cache_set 0 Map.empty (request_key ?req) (JStr []) :: nat option cache"
  have res: "empty_body_upstream (request_url default_config ?req) = Resolved (JStr [])"
    by (simp add: empty_body_upstream_def)
  have first: "sent (app ?P default_config empty_body_upstream 0 Map.empty ?req)
      = respond ?P default_config 0 ?req (ApiSuccess (JStr []) False)"
    using sent_app_resolved [where up = empty_body_upstream and cfg = default_config
        and req = "?req" and P = ?P and now = 0, OF empty_cache_miss res] .
  have c1: "cache_after (app ?P default_config empty_body_upstream 0 Map.empty ?req) = ?c1"
    using cache_after_app_resolved [where up = empty_body_upstream and cfg = default_config
        and req = "?req" and P = ?P and now = 0, OF empty_cache_miss res] .
  have miss: "\<not> truthy ?P (cache_get 1 ?c1 (request_key ?req))"
    by (simp add: cache_get_def cache_set_def)
  have second: "sent (app ?P default_config empty_body_upstream 1 ?c1 ?req)
      = respond ?P default_config 1 ?req (ApiSuccess (JStr []) False)"
    using sent_app_resolved [where up = empty_body_upstream and cfg = default_config
        and req = "?req" and P = ?P and now = 1, OF miss res] .
  have calls: "upstream_calls (app ?P default_config empty_body_upstream 1 ?c1 ?req)
      = [request_url default_config ?req]"
    using miss by (rule app_miss_calls)
  have url: "request_url default_config ?req
      = ''https://api.coingecko.com/api/v3/simple/price?ids=bitcoin&vs_currencies=usd&include_24hr_change=true&include_market_cap=true''"
    by (simp add: crypto_url_def crypto_ids_def)
  show ?thesis
    unfolding c1 first second calls url
    by (simp add: crypto_respond_def field_success_body)
qed

section \<open>Conversions of one pair with different amounts\<close>

lemma conversionRate_truthy_payload:
  "conversionRate P cfg to d = Inr rate \<Longrightarrow> truthy P rate \<Longrightarrow> truthy P d"
  by (cases d) (auto simp: conversionRate_def bind_exn_def split: if_splits)

text \<open>
  Claim C10. The cache key of a conversion is \<^verbatim>\<open>convert_\<close>, the source currency, an
  underscore and the target currency; the amount is not part of it. When a conversion of
  a pair has been answered by the upstream with a payload carrying a truthy rate, a
  conversion of the same pair with another amount, made before the entry expires,
  makes no upstream request, leaves the cache as it is and answers with status 200 and
  \<^verbatim>\<open>cached: true\<close>; its \<^verbatim>\<open>amount\<close> is its own amount, its \<^verbatim>\<open>rate\<close> the cached rate, and its
  \<^verbatim>\<open>result\<close> is computed from the product of its own amount and that rate.
\<close>

theorem C10_pair_entry_shared_across_amounts:
  assumes "\<not> truthy P (cache_get now c (convert_key from to))"
    and "up (convert_url cfg from to) = Resolved d"
    and "conversionRate P cfg to d = Inr rate"
    and "truthy P rate"
    and "now' < now + stdTTL"
    and "times P (parseFloat P amount') rate = Inr product"
  shows "request_key (Convert from to amount) = ''convert_'' @ from @ ''_'' @ to
       \<and> request_key (Convert from to amount') = request_key (Convert from to amount)
       \<and> upstream_calls (convert P cfg up' now'
            (cache_after (convert P cfg up now c from to amount)) from to amount') = []
       \<and> cache_after (convert P cfg up' now'
            (cache_after (convert P cfg up now c from to amount)) from to amount')
           = cache_after (convert P cfg up now c from to amount)
       \<and> status_code (sent (convert P cfg up' now'
            (cache_after (convert P cfg up now c from to amount)) from to amount')) = 200
       \<and> field (sent (convert P cfg up' now'
            (cache_after (convert P cfg up now c from to amount)) from to amount')) ''cached''
           = JBool True
       \<and> prop_of (field (sent (convert P cfg up' now'
            (cache_after (convert P cfg up now c from to amount)) from to amount')) ''data'')
            ''amount'' = JNum (parseFloat P amount')
       \<and> prop_of (field (sent (convert P cfg up' now'
            (cache_after (convert P cfg up now c from to amount)) from to amount')) ''data'')
            ''rate'' = rate
       \<and> prop_of (field (sent (convert P cfg up' now'
            (cache_after (convert P cfg up now c from to amount)) from to amount')) ''data'')
            ''result'' = JNum (parseFloat P (toFixed2 P product))"
proof -
  let ?req = "Convert from to amount"
  let ?req' = "Convert from to amount'"
  let ?c1 = "cache_after (convert P cfg up now c from to amount)"
  have miss: "\<not> truthy P (cache_get now c (request_key ?req))"
    using assms(1) by simp
  have res: "up (request_url cfg ?req) = Resolved d"
    using assms(2) by simp
  have d: "truthy P d"
    using assms(3,4) by (rule conversionRate_truthy_payload)
  have c1: "?c1 = cache_set now c (convert_key from to) d"
    using cache_after_app_resolved [where up = up and cfg = cfg, OF miss res] by simp
  have got: "cache_get now' (cache_set now c (convert_key from to) d) (request_key ?req') = d"
    using assms(5) by (simp add: cache_get_set_same)
  with d have "truthy P (cache_get now' (cache_set now c (convert_key from to) d)
      (request_key ?req'))"
    by simp
  from app_hit [OF this, of cfg up']
  have "app P cfg up' now' (cache_set now c (convert_key from to) d) ?req'
      = (respond P cfg now' ?req' (ApiSuccess d True), cache_set now c (convert_key from to) d, [])"
    unfolding got .
  with respond_convert_success [OF assms(3,4,6), of now' "from" True] c1
  have second: "convert P cfg up' now' ?c1 from to amount'
      = (\<lparr>status_code = 200,
          body = success_body P now' (convert_data P from to amount' rate product) True\<rparr>,
         ?c1, [])"
    by simp
  show ?thesis
    unfolding second
    by (simp add: convert_key_def upstream_calls_def cache_after_def sent_def
          field_success_body convert_data_fields)
qed

text \<open>
  The theorem at conversions of 100 and then, sixty seconds later, of 250 from USD to
  JPY at a rate of 150; the second is made against an upstream that would time out, and
  its result is 37500.
\<close>

theorem C10_witness:
  "request_key (Convert ''USD'' ''JPY'' ''100'') = ''convert_'' @ ''USD'' @ ''_'' @ ''JPY''
   \<and> request_key (Convert ''USD'' ''JPY'' ''250'') = request_key (Convert ''USD'' ''JPY'' ''100'')
   \<and> upstream_calls (convert integral_platform default_config timeout_upstream 60
        (cache_after (convert integral_platform default_config provider_upstream 0 Map.empty
           ''USD'' ''JPY'' ''100'')) ''USD'' ''JPY'' ''250'') = []
   \<and> cache_after (convert integral_platform default_config timeout_upstream 60
        (cache_after (convert integral_platform default_config provider_upstream 0 Map.empty
           ''USD'' ''JPY'' ''100'')) ''USD'' ''JPY'' ''250'')
      = cache_after (convert integral_platform default_config provider_upstream 0 Map.empty
           ''USD'' ''JPY'' ''100'')
   \<and> status_code (sent (convert integral_platform default_config timeout_upstream 60
        (cache_after (convert integral_platform default_config provider_upstream 0 Map.empty
           ''USD'' ''JPY'' ''100'')) ''USD'' ''JPY'' ''250'')) = 200
   \<and> field (sent (convert integral_platform default_config timeout_upstream 60
        (cache_after (convert integral_platform default_config provider_upstream 0 Map.empty
           ''USD'' ''JPY'' ''100'')) ''USD'' ''JPY'' ''250'')) ''cached'' = JBool True
   \<and> prop_of (field (sent (convert integral_platform default_config timeout_upstream 60
        (cache_after (convert integral_platform default_config provider_upstream 0 Map.empty
           ''USD'' ''JPY'' ''100'')) ''USD'' ''JPY'' ''250'')) ''data'') ''amount''
      = JNum (Some 250)
   \<and> prop_of (field (sent (convert integral_platform default_config timeout_upstream 60
        (cache_after (convert integral_platform default_config provider_upstream 0 Map.empty
           ''USD'' ''JPY'' ''100'')) ''USD'' ''JPY'' ''250'')) ''data'') ''rate''
      = JNum (Some 150)
   \<and> prop_of (field (sent (convert integral_platform default_config timeout_upstream 60
        (cache_after (convert integral_platform default_config provider_upstream 0 Map.empty
           ''USD'' ''JPY'' ''100'')) ''USD'' ''JPY'' ''250'')) ''data'') ''result''
      = JNum (Some 37500)"
proof -
  let ?P = integral_platform
  let ?table = "JObj [(''base'', JStr ''USD''),
                      (''rates'', JObj [(''USD'', JNum (Some 1)), (''JPY'', JNum (Some 150))])]
                :: nat option jsval"
  have miss: "\<not> truthy ?P (cache_get 0 Map.empty (convert_key ''USD'' ''JPY''))"
    by (rule empty_cache_miss)
  have res: "provider_upstream (convert_url default_config ''USD'' ''JPY'') = Resolved ?table"
    by (simp add: provider_upstream_def convert_url_def default_config_def)
  have ttl: "(60::nat) < 0 + stdTTL"
    by (simp add: stdTTL_def)
  have prod: "times ?P (parseFloat ?P ''250'') (JNum (Some 150)) = Inr (Some 37500)"
    unfolding integral_parse_examples by (rule integral_times_examples)
  have result: "parseFloat ?P (toFixed2 ?P (Some 37500)) = Some 37500"
    by (simp add: integral_platform_def leading_number_def)
  note C10_pair_entry_shared_across_amounts [where up = provider_upstream
      and cfg = default_config and up' = timeout_upstream
      and amount = "''100''" and amount' = "''250''",
      OF miss res integral_rate_150 integral_truthy_examples(2) ttl prod]
  then show ?thesis
    unfolding integral_parse_examples result .
qed

section \<open>The economic-indicator route\<close>

lemma functionName_upper:
  "functionName (toUpperCase name)
     = (if toUpperCase name = ''GDP'' then ''REAL_GDP''
        else if toUpperCase name = ''INFLATION'' then ''INFLATION''
        else if toUpperCase name = ''UNEMPLOYMENT'' then ''UNEMPLOYMENT''
        else if toUpperCase name = ''INTEREST_RATE'' then ''FEDERAL_FUNDS_RATE''
        else toUpperCase name)"
  by (simp add: functionName_def indicatorMap_def)

lemma respond_economic_series:
  "get_prop d ''data'' = Inr (JArr points) \<Longrightarrow>
   respond P cfg now (Economic indicator_param) (ApiSuccess d cached)
     = \<lparr>status_code = 200, body = success_body P now (JArr (take 10 points)) cached\<rparr>"
  by (simp add: economic_respond_def bind_exn_def try_catch_def)

lemma economic_series_served:
  assumes "get_prop (payload_served P up now c (economic_url cfg name) (economic_key name)) ''data''
             = Inr (JArr points)"
  shows "\<exists>cached. sent (economic P cfg up now c name)
           = \<lparr>status_code = 200, body = success_body P now (JArr (take 10 points)) cached\<rparr>"
proof (cases "truthy P (cache_get now c (request_key (Economic name)))")
  case True
  from sent_app_hit [OF this, of cfg up] assms True
  have "sent (economic P cfg up now c name)
      = \<lparr>status_code = 200, body = success_body P now (JArr (take 10 points)) True\<rparr>"
    by (simp add: payload_served_def respond_economic_series del: respond.simps)
  then show ?thesis by blast
next
  case False
  show ?thesis
  proof (cases "up (request_url cfg (Economic name))")
    case (Resolved d)
    from sent_app_resolved [where up = up and cfg = cfg, OF False Resolved] assms False Resolved
    have "sent (economic P cfg up now c name)
        = \<lparr>status_code = 200, body = success_body P now (JArr (take 10 points)) False\<rparr>"
      by (simp add: payload_served_def respond_economic_series del: respond.simps)
    then show ?thesis by blast
  next
    case (Rejected e)
    with assms False show ?thesis
      by (simp add: payload_served_def)
  qed
qed

lemma head_before_tail:
  assumes "sorted_wrt later points"
  shows "list_all (\<lambda>p. list_all (later p) (drop n points)) (take n points)"
proof -
  have "sorted_wrt later (take n points @ drop n points)"
    using assms by simp
  then have "\<forall>p\<in>set (take n points). \<forall>q\<in>set (drop n points). later p q"
    unfolding sorted_wrt_append by blast
  then show ?thesis
    by (simp add: list_all_iff)
qed

text \<open>
  Claim C7, as amended. The route upper-cases the indicator name. A request that finds
  no servable entry is sent to the provider, never rejected locally, with the function
  \<^verbatim>\<open>REAL_GDP\<close>, \<^verbatim>\<open>INFLATION\<close>, \<^verbatim>\<open>UNEMPLOYMENT\<close> or \<^verbatim>\<open>FEDERAL_FUNDS_RATE\<close> when the
  upper-cased name is \<^verbatim>\<open>GDP\<close>, \<^verbatim>\<open>INFLATION\<close>, \<^verbatim>\<open>UNEMPLOYMENT\<close> or \<^verbatim>\<open>INTEREST_RATE\<close>, and
  with the upper-cased name itself otherwise. When the payload the request is answered
  from carries an array under \<^verbatim>\<open>data\<close>, the envelope is a success whose data is the first
  ten entries of that array, in the provider's order; whenever the provider's array is
  ordered by a relation (newest first, say), each of these entries stands in that
  relation to every entry left out.
\<close>

theorem C7_indicator_upper_cased_mapped_first_ten:
  "(\<not> truthy P (cache_get now c (economic_key name)) \<longrightarrow>
      upstream_calls (economic P cfg up now c name)
        = [''https://www.alphavantage.co/query?function=''
             @ (if toUpperCase name = ''GDP'' then ''REAL_GDP''
                else if toUpperCase name = ''INFLATION'' then ''INFLATION''
                else if toUpperCase name = ''UNEMPLOYMENT'' then ''UNEMPLOYMENT''
                else if toUpperCase name = ''INTEREST_RATE'' then ''FEDERAL_FUNDS_RATE''
                else toUpperCase name)
             @ ''&apikey='' @ ALPHA_VANTAGE_API_KEY cfg])
   \<and> (get_prop (payload_served P up now c (economic_url cfg name) (economic_key name)) ''data''
        = Inr (JArr points) \<longrightarrow>
      field (sent (economic P cfg up now c name)) ''success'' = JBool True
      \<and> field (sent (economic P cfg up now c name)) ''data'' = JArr (take 10 points)
      \<and> length (take 10 points) \<le> 10
      \<and> (sorted_wrt later points \<longrightarrow>
           list_all (\<lambda>p. list_all (later p) (drop 10 points)) (take 10 points)))"
proof (intro conjI impI)
  assume "\<not> truthy P (cache_get now c (economic_key name))"
  then have "\<not> truthy P (cache_get now c (request_key (Economic name)))"
    by simp
  from app_miss_calls [OF this, of cfg up]
  show "upstream_calls (economic P cfg up now c name)
        = [''https://www.alphavantage.co/query?function=''
             @ (if toUpperCase name = ''GDP'' then ''REAL_GDP''
                else if toUpperCase name = ''INFLATION'' then ''INFLATION''
                else if toUpperCase name = ''UNEMPLOYMENT'' then ''UNEMPLOYMENT''
                else if toUpperCase name = ''INTEREST_RATE'' then ''FEDERAL_FUNDS_RATE''
                else toUpperCase name)
             @ ''&apikey='' @ ALPHA_VANTAGE_API_KEY cfg]"
    unfolding functionName_upper [symmetric] by (simp add: economic_url_def)
next
  assume "get_prop (payload_served P up now c (economic_url cfg name) (economic_key name)) ''data''
        = Inr (JArr points)"
  from economic_series_served [OF this] obtain cached where
    s: "sent (economic P cfg up now c name)
      = \<lparr>status_code = 200, body = success_body P now (JArr (take 10 points)) cached\<rparr>"
    by blast
  show "field (sent (economic P cfg up now c name)) ''success'' = JBool True"
    and "field (sent (economic P cfg up now c name)) ''data'' = JArr (take 10 points)"
    unfolding s by (simp_all add: field_success_body)
  show "length (take 10 points) \<le> 10"
    by simp
next
  assume "sorted_wrt later points"
  then show "list_all (\<lambda>p. list_all (later p) (drop 10 points)) (take 10 points)"
    by (rule head_before_tail)
qed

text \<open>
  The theorem at the indicator \<^verbatim>\<open>gdp\<close> with a series of twelve yearly points listed
  newest first.
\<close>

lemma upper_gdp: "toUpperCase ''gdp'' = ''GDP''"
  by code_simp

lemma newest_first_sorted: "sorted_wrt newer (map yearly_point (rev years_ascending))"
  by (simp add: years_ascending_def yearly_point_def newer_def point_year_def prop_of_def)

theorem C7_witness:
  "upstream_calls (economic integral_platform default_config newest_first_upstream 0 Map.empty
      ''gdp'') = [''https://www.alphavantage.co/query?function=REAL_GDP&apikey=demo'']
   \<and> field (sent (economic integral_platform default_config newest_first_upstream 0 Map.empty
        ''gdp'')) ''success'' = JBool True
   \<and> field (sent (economic integral_platform default_config newest_first_upstream 0 Map.empty
        ''gdp'')) ''data'' = JArr (take 10 (map yearly_point (rev years_ascending)))
   \<and> length (take 10 (map yearly_point (rev years_ascending))) \<le> 10
   \<and> list_all (\<lambda>p. list_all (newer p) (drop 10 (map yearly_point (rev years_ascending))))
        (take 10 (map yearly_point (rev years_ascending)))"
proof -
  let ?P = integral_platform
  have miss: "\<not> truthy ?P (cache_get 0 Map.empty (economic_key ''gdp''))"
    by (rule empty_cache_miss)
  have served: "get_prop (payload_served ?P newest_first_upstream 0 Map.empty
      (economic_url default_config ''gdp'') (economic_key ''gdp'')) ''data''
      = Inr (JArr (map yearly_point (rev years_ascending)))"
    by (simp add: payload_served_def cache_get_def newest_first_upstream_def)
  have url: "''https://www.alphavantage.co/query?function=''
             @ (if toUpperCase ''gdp'' = ''GDP'' then ''REAL_GDP''
                else if toUpperCase ''gdp'' = ''INFLATION'' then ''INFLATION''
                else if toUpperCase ''gdp'' = ''UNEMPLOYMENT'' then ''UNEMPLOYMENT''
                else if toUpperCase ''gdp'' = ''INTEREST_RATE'' then ''FEDERAL_FUNDS_RATE''
                else toUpperCase ''gdp'')
             @ ''&apikey='' @ ALPHA_VANTAGE_API_KEY default_config
      = ''https://www.alphavantage.co/query?function=REAL_GDP&apikey=demo''"
    unfolding upper_gdp by (simp add: default_config_def)
  from C7_indicator_upper_cased_mapped_first_ten [of ?P 0 Map.empty "''gdp''" default_config
      newest_first_upstream "map yearly_point (rev years_ascending)" newer]
    miss served newest_first_sorted
  show ?thesis unfolding url by blast
qed

text \<open>
  Claim C7 as stated fails in two points. An unknown name is not passed verbatim: for the
  indicator \<^verbatim>\<open>cpi\<close> the provider is requested with \<^verbatim>\<open>function=CPI\<close>, not \<^verbatim>\<open>function=cpi\<close>.
  And the ten points returned are the first ten of the payload, not the most recent
  ten: from a provider that lists the years 2001 to 2012 oldest first, the envelope
  carries 2001 to 2010.
\<close>

theorem C7_counterexample:
  "upstream_calls (app integral_platform default_config timeout_upstream 0 Map.empty
      (Economic ''cpi'')) = [''https://www.alphavantage.co/query?function=CPI&apikey=demo'']
   \<and> upstream_calls (app integral_platform default_config timeout_upstream 0 Map.empty
      (Economic ''cpi'')) \<noteq> [''https://www.alphavantage.co/query?function=cpi&apikey=demo'']
   \<and> field (sent (app integral_platform default_config oldest_first_upstream 0 Map.empty
        (Economic ''gdp''))) ''data''
      = JArr (map yearly_point [''2001'', ''2002'', ''2003'', ''2004'', ''2005'',
                                ''2006'', ''2007'', ''2008'', ''2009'', ''2010''])"
proof -
  let ?P = integral_platform
  have "upstream_calls (app ?P default_config timeout_upstream 0 Map.empty
      (Economic ''cpi'')) = [request_url default_config (Economic ''cpi'')]"
    by (rule app_miss_calls) (rule empty_cache_miss)
  moreover have "request_url default_config (Economic ''cpi'')
      = ''https://www.alphavantage.co/query?function=CPI&apikey=demo''"
    by code_simp
  ultimately have a: "upstream_calls (app ?P default_config timeout_upstream 0 Map.empty
      (Economic ''cpi'')) = [''https://www.alphavantage.co/query?function=CPI&apikey=demo'']"
    by simp
  have "get_prop (payload_served ?P oldest_first_upstream 0 Map.empty
      (economic_url default_config ''gdp'') (economic_key ''gdp'')) ''data''
      = Inr (JArr (map yearly_point years_ascending))"
    by (simp add: payload_served_def cache_get_def oldest_first_upstream_def)
  from economic_series_served [OF this] obtain cached where
    "sent (economic ?P default_config oldest_first_upstream 0 Map.empty ''gdp'')
      = \<lparr>status_code = 200,
         body = success_body ?P 0 (JArr (take 10 (map yearly_point years_ascending))) cached\<rparr>"
    by blast
  then have b: "field (sent (app ?P default_config oldest_first_upstream 0 Map.empty
        (Economic ''gdp''))) ''data''
      = JArr (map yearly_point [''2001'', ''2002'', ''2003'', ''2004'', ''2005'',
                                ''2006'', ''2007'', ''2008'', ''2009'', ''2010''])"
    by (simp add: field_success_body years_ascending_def)
  from a b show ?thesis by simp
qed

section \<open>Every outcome is an envelope\<close>









section \<open>The crypto cache key\<close>

text \<open>
  Claim C9. The cache key of a crypto request is \<^verbatim>\<open>crypto_\<close> followed by the identifier
  text the caller supplied. Two different identifier texts, such as the same coins in
  two orders, give different keys and different URLs; when neither has a servable
  entry, the first request is sent upstream, and the second still finds no entry after
  the first and is sent upstream too.
\<close>

theorem C9_crypto_key_is_the_ids_text:
  assumes "a \<noteq> []" and "b \<noteq> []" and "a \<noteq> b"
    and "\<not> truthy P (cache_get now c (crypto_key (Some a)))"
    and "\<not> truthy P (cache_get now' c (crypto_key (Some b)))"
  shows "crypto_key (Some a) = ''crypto_'' @ a
       \<and> crypto_key (Some b) = ''crypto_'' @ b
       \<and> crypto_key (Some a) \<noteq> crypto_key (Some b)
       \<and> upstream_calls (crypto P cfg up now c (Some a)) = [crypto_url (Some a)]
       \<and> upstream_calls (crypto P cfg up' now'
            (cache_after (crypto P cfg up now c (Some a))) (Some b)) = [crypto_url (Some b)]
       \<and> crypto_url (Some a) \<noteq> crypto_url (Some b)"
proof -
  have ka: "crypto_key (Some a) = ''crypto_'' @ a" and kb: "crypto_key (Some b) = ''crypto_'' @ b"
    using assms(1,2) by (simp_all add: crypto_key_def crypto_ids_def)
  have ne: "crypto_key (Some b) \<noteq> crypto_key (Some a)"
    using assms(3) by (simp add: ka kb)
  have urls: "crypto_url (Some a) \<noteq> crypto_url (Some b)"
    using assms(1,2,3) by (simp add: crypto_url_def crypto_ids_def)
  have first: "upstream_calls (app P cfg up now c (Crypto (Some a)))
      = [request_url cfg (Crypto (Some a))]"
    using assms(4) by (intro app_miss_calls) simp
  have "cache_get now' (cache_after (app P cfg up now c (Crypto (Some a)))) (crypto_key (Some b))
      = cache_get now' c (crypto_key (Some b))"
    using ne by (intro cache_after_other_key) simp
  with assms(5) have "\<not> truthy P (cache_get now'
      (cache_after (app P cfg up now c (Crypto (Some a)))) (request_key (Crypto (Some b))))"
    by simp
  then have second: "upstream_calls (app P cfg up' now'
      (cache_after (app P cfg up now c (Crypto (Some a)))) (Crypto (Some b)))
      = [request_url cfg (Crypto (Some b))]"
    by (rule app_miss_calls)
  from ka kb ne urls first second show ?thesis by simp
qed

text \<open>The theorem at \<^verbatim>\<open>bitcoin,ethereum\<close> and \<^verbatim>\<open>ethereum,bitcoin\<close> on an empty cache.\<close>

theorem C9_witness:
  "crypto_key (Some ''bitcoin,ethereum'') = ''crypto_'' @ ''bitcoin,ethereum''
   \<and> crypto_key (Some ''ethereum,bitcoin'') = ''crypto_'' @ ''ethereum,bitcoin''
   \<and> crypto_key (Some ''bitcoin,ethereum'') \<noteq> crypto_key (Some ''ethereum,bitcoin'')
   \<and> upstream_calls (crypto integral_platform default_config coin_upstream 0 Map.empty
        (Some ''bitcoin,ethereum'')) = [crypto_url (Some ''bitcoin,ethereum'')]
   \<and> upstream_calls (crypto integral_platform default_config coin_upstream 1
        (cache_after (crypto integral_platform default_config coin_upstream 0 Map.empty
           (Some ''bitcoin,ethereum''))) (Some ''ethereum,bitcoin''))
      = [crypto_url (Some ''ethereum,bitcoin'')]
   \<and> crypto_url (Some ''bitcoin,ethereum'') \<noteq> crypto_url (Some ''ethereum,bitcoin'')"
proof -
  have a: "''bitcoin,ethereum'' \<noteq> []" and b: "''ethereum,bitcoin'' \<noteq> []"
    and ab: "''bitcoin,ethereum'' \<noteq> ''ethereum,bitcoin''"
    by simp_all
  show ?thesis
    by (rule C9_crypto_key_is_the_ids_text [OF a b ab empty_cache_miss empty_cache_miss])
qed

end
